theory Spec2Isabelle
  imports Main "HOL-Library.Sublist"
begin

section \<open>Family Wellness web app: a shallow embedding of \<^verbatim>\<open>web_app.py\<close>\<close>

text \<open>
  The program is one Streamlit script. Every user interaction re-executes the script from
  the top against the session state; \<^verbatim>\<open>st.rerun()\<close> aborts the running pass and
  starts a fresh one, \<^verbatim>\<open>st.stop()\<close> ends the pass. The embedding keeps this shape:
  one function per source function, one function per section of the script, a pass over
  the script for one widget event, and the rerun loop on top of it.

  Texts are \<^typ>\<open>string\<close>s whose characters are the bytes of the UTF-8 encoding; the
  emoji of the source are written out as their bytes.
\<close>

subsection \<open>Strings: \<^verbatim>\<open>str.lower()\<close> and the \<^verbatim>\<open>in\<close> operator\<close>

text \<open>
  A Python \<^verbatim>\<open>str\<close> is a sequence of code points. A text is modelled by the bytes of its
  UTF-8 encoding, and \<open>code_points\<close> reads the code points off the bytes: an ASCII byte
  is a code point of its own, any other byte starts a code point that takes the
  continuation bytes after it.
\<close>

definition is_ascii :: "char \<Rightarrow> bool" where
  "is_ascii c = ((of_char c :: nat) < 128)"

definition continuation :: "char \<Rightarrow> bool" where
  "continuation c = (128 \<le> (of_char c :: nat) \<and> (of_char c :: nat) < 192)"

function code_points :: "string \<Rightarrow> string list" where
  "code_points [] = []"
| "code_points (c # cs) =
     (if is_ascii c then [c] # code_points cs
      else (c # takeWhile continuation cs) # code_points (dropWhile continuation cs))"
  by pat_completeness auto
termination
  by (relation "measure length") (auto simp: length_dropWhile_le less_Suc_eq_le)

text \<open>
  \<^verbatim>\<open>str.lower()\<close> replaces every code point by its lowercase. On an ASCII code point
  that is: the capitals \<open>A\<close> (65) to \<open>Z\<close> (90) move up by 32, every other one is
  unchanged. On the other code points it is the lowercase mapping of the Unicode database
  of the Python runtime, which is not part of the program: it is the parameter \<open>tbl\<close>,
  which maps a code point, given the code points before and after it (the lowercase of
  the capital sigma depends on them), to the bytes of its lowercase.
\<close>

definition lower_char :: "char \<Rightarrow> char" where
  "lower_char c =
     (let n = (of_char c :: nat) in if 65 \<le> n \<and> n \<le> 90 then char_of (n + 32) else c)"

type_synonym case_table = "string list \<Rightarrow> string \<Rightarrow> string list \<Rightarrow> string"

definition lower_point :: "case_table \<Rightarrow> string list \<Rightarrow> string \<Rightarrow> string list \<Rightarrow> string" where
  "lower_point tbl earlier p later =
     (if list_all is_ascii p then map lower_char p else tbl earlier p later)"

fun lower_points :: "case_table \<Rightarrow> string list \<Rightarrow> string list \<Rightarrow> string list" where
  "lower_points tbl earlier [] = []"
| "lower_points tbl earlier (p # ps) =
     lower_point tbl earlier p ps # lower_points tbl (earlier @ [p]) ps"

definition lower :: "case_table \<Rightarrow> string \<Rightarrow> string" where
  "lower tbl s = concat (lower_points tbl [] (code_points s))"

text \<open>
  \<^verbatim>\<open>keyword in text\<close> on strings: some position of \<open>text\<close> starts with \<open>keyword\<close>.
  The empty keyword is in every text, also the empty one.
\<close>

fun str_contains :: "string \<Rightarrow> string \<Rightarrow> bool" where
  "str_contains keyword [] = (keyword = [])"
| "str_contains keyword (c # cs) = (prefix keyword (c # cs) \<or> str_contains keyword cs)"

subsection \<open>The crisis filter\<close>

definition crisis_keywords :: "string list" where
  "crisis_keywords =
     [''suicide'', ''kill myself'', ''end it all'', ''hurt myself'', ''die'', ''worthless'']"

definition check_crisis_keywords :: "case_table \<Rightarrow> string \<Rightarrow> bool" where
  "check_crisis_keywords tbl message =
     list_ex (\<lambda>keyword. str_contains keyword (lower tbl message)) crisis_keywords"

definition siren :: string where
  "siren = [CHR 0xF0, CHR 0x9F, CHR 0x9A, CHR 0xA8]"

definition get_crisis_response :: string where
  "get_crisis_response =
     siren @ '' I'm concerned about what you've shared. Your feelings are valid, but help is available.\<newline>\<newline>**Please reach out immediately:**\<newline>- **India - Suicide Prevention**: 104 (24/7)\<newline>- **KIRAN Mental Health**: 1800-599-0019\<newline>- **Vandrevala Foundation**: 9999666555\<newline>- **iCall Psychosocial Helpline**: 9152987821\<newline>\<newline>You don't have to face this alone. Would you like to talk about what's making you feel this way?''"

subsection \<open>The personalities\<close>

record personality_info =
  name :: string
  role :: string
  description :: string
  prompt :: string

definition sage_info :: personality_info where
  "sage_info = \<lparr>
     name = [CHR 0xF0, CHR 0x9F, CHR 0xA7, CHR 0xA0] @ '' Sage'',
     role = ''Youth Mental Health Counselor'',
     description = ''For teenagers and young adults (mental health, academics)'',
     prompt = ''You are Sage, a supportive AI counselor for Indian youth aged 13-25. You understand academic pressure, family expectations, and cultural challenges. Always:\<newline>- Provide empathetic, non-judgmental support\<newline>- Recognize signs of serious mental health concerns\<newline>- Offer practical coping strategies rooted in Indian context\<newline>- Bridge communication gaps between youth and families\<newline>- Use encouraging, culturally sensitive language'' \<rparr>"

definition nurture_info :: personality_info where
  "nurture_info = \<lparr>
     name = [CHR 0xF0, CHR 0x9F, CHR 0xA4, CHR 0xB1] @ '' Nurture'',
     role = ''Parenting Guide'',
     description = ''For parents and guardians (parenting strategies)'',
     prompt = ''You are Nurture, an experienced parenting guide for Indian families. You understand diverse family structures, cultural values, and developmental science. Always:\<newline>- Provide evidence-based parenting strategies\<newline>- Respect cultural traditions while promoting healthy development\<newline>- Adapt advice for different socioeconomic contexts\<newline>- Support parents' mental health and well-being\<newline>- Offer practical, actionable guidance'' \<rparr>"

definition spark_info :: personality_info where
  "spark_info = \<lparr>
     name = [CHR 0xE2, CHR 0x9C, CHR 0xA8] @ '' Spark'',
     role = ''Child Development Specialist'',
     description = ''For child development activities and learning'',
     prompt = ''You are Spark, a child development specialist creating engaging, age-appropriate activities. You understand Indian cultural contexts and diverse learning needs. Always:\<newline>- Design inclusive activities for all abilities\<newline>- Incorporate cultural elements and local resources\<newline>- Provide clear, step-by-step instructions\<newline>- Suggest modifications for special needs\<newline>- Make learning fun and engaging'' \<rparr>"

definition bridge_info :: personality_info where
  "bridge_info = \<lparr>
     name = [CHR 0xF0, CHR 0x9F, CHR 0x8C, CHR 0x89] @ '' Bridge'',
     role = ''Family Communication Mediator'',
     description = ''For family communication and conflict resolution'',
     prompt = ''You are Bridge, a family communication specialist helping resolve conflicts and improve understanding. Always:\<newline>- Remain neutral and understanding\<newline>- Suggest practical communication strategies\<newline>- Help different generations understand each other\<newline>- Provide conflict resolution techniques\<newline>- Support healthy family dynamics'' \<rparr>"

text \<open>The dictionary, in the order of its items (the order of the buttons).\<close>

definition PERSONALITIES_items :: "(string \<times> personality_info) list" where
  "PERSONALITIES_items =
     [(''sage'', sage_info), (''nurture'', nurture_info),
      (''spark'', spark_info), (''bridge'', bridge_info)]"

definition PERSONALITIES :: "string \<rightharpoonup> personality_info" where
  "PERSONALITIES = map_of PERSONALITIES_items"

definition greeting :: "personality_info \<Rightarrow> string" where
  "greeting p =
     ''Hello! I'm '' @ name p @ '', your '' @ role p @ ''. How can I support you today?''"

subsection \<open>The recommendation of the Quick Assessment\<close>

text \<open>
  The \<^verbatim>\<open>if/elif\<close> chain of the Get Recommendation handler. The three widget values of
  the form are in scope there: the age group, the concern and the mood of the slider.
\<close>

definition rec_personality :: "string \<Rightarrow> string \<Rightarrow> int \<Rightarrow> string" where
  "rec_personality age_group concern mood =
     (if age_group \<in> set [''13-17'', ''18-25'']
         \<and> concern \<in> set [''Mental health'', ''Academic stress''] then ''sage''
      else if age_group = ''Parent/Guardian''
         \<and> concern \<in> set [''Parenting'', ''Child development''] then ''nurture''
      else if concern = ''Child development'' then ''spark''
      else ''bridge'')"

text \<open>The option lists of the two select boxes.\<close>

definition age_group_options :: "string list" where
  "age_group_options = [''13-17'', ''18-25'', ''Parent/Guardian'', ''Other'']"

definition concern_options :: "string list" where
  "concern_options =
     [''Mental health'', ''Academic stress'', ''Parenting'', ''Child development'',
      ''Family communication'']"

subsection \<open>The provider and the session state\<close>

text \<open>
  The provider is outside the program. A model handle records the key it was configured
  with and the model name; a chat object records its model and its history of turns
  (role and parts). The two network calls of the program are logged in the order they
  are made, and the provider is any function from the log, the current call last, to its
  answer: \<open>Inl e\<close> when the call raises an exception whose text is \<open>e\<close>, \<open>Inr t\<close> when
  it returns the text \<open>t\<close>. \<^verbatim>\<open>genai.configure\<close>, \<^verbatim>\<open>GenerativeModel\<close> and
  \<^verbatim>\<open>start_chat\<close> build objects locally and make no call.
\<close>

datatype gen_model = GenerativeModel (configured_key: string) (model_name: string)

type_synonym turn = "string \<times> string list"

datatype chat = ChatSession (chat_model: gen_model) (history: "turn list")

datatype call = GenerateContent gen_model string | SendMessage chat string

type_synonym provider = "call list \<Rightarrow> string + string"

datatype py_error = KeyError string | AttributeError string

record message =
  msg_role :: string
  content :: string

record session_state =
  messages :: "message list"
  personality :: string
  chat_session :: "chat option"
  api_key_valid :: bool
  model :: "gen_model option"

record world = session_state +
  calls :: "call list"

definition initial_state :: world where
  "initial_state = \<lparr> messages = [], personality = ''sage'', chat_session = None,
     api_key_valid = False, model = None, calls = [] \<rparr>"

subsection \<open>The functions of the script\<close>

definition validate_api_key :: "provider \<Rightarrow> string \<Rightarrow> world \<Rightarrow> (string + gen_model) \<times> world" where
  "validate_api_key prov api_key w =
     (let m = GenerativeModel api_key ''gemini-pro'';
          log = calls w @ [GenerateContent m ''Hello'']
      in case prov log of
           Inr response \<Rightarrow> (Inr m, w\<lparr>calls := log\<rparr>)
         | Inl e \<Rightarrow> (Inl e, w\<lparr>calls := log\<rparr>))"

definition seeded_history :: "personality_info \<Rightarrow> turn list" where
  "seeded_history p =
     [(''user'', [''Hello, I need help with family wellness and development.'']),
      (''model'', [prompt p @ ''\<newline>\<newline>'' @ greeting p])]"

definition initialize_chat_session :: "string \<Rightarrow> world \<Rightarrow> py_error + bool \<times> world" where
  "initialize_chat_session personality_key w =
     (case model w of
        None \<Rightarrow> Inr (False, w)
      | Some m \<Rightarrow>
          (case PERSONALITIES personality_key of
             None \<Rightarrow> Inl (KeyError personality_key)
           | Some p \<Rightarrow> Inr (True, w\<lparr>chat_session := Some (ChatSession m (seeded_history p))\<rparr>)))"

text \<open>
  \<^verbatim>\<open>chat_session.send_message(text)\<close>: one call to the provider with the chat object as
  it is (its history) and the text. When the provider answers, the chat object, which
  the session state refers to, gains the text as a user turn and the answer as a model
  turn; when the call raises, the chat object is as before.
\<close>

definition send_message :: "provider \<Rightarrow> chat \<Rightarrow> string \<Rightarrow> world \<Rightarrow> (string + string) \<times> world" where
  "send_message prov cs text w =
     (let log = calls w @ [SendMessage cs text]
      in case prov log of
           Inr reply \<Rightarrow>
             (Inr reply,
              w\<lparr>calls := log,
                chat_session := Some (ChatSession (chat_model cs)
                  (history cs @ [(''user'', [text]), (''model'', [reply])]))\<rparr>)
         | Inl e \<Rightarrow> (Inl e, w\<lparr>calls := log\<rparr>))"

definition context_prompt :: "personality_info \<Rightarrow> string \<Rightarrow> string" where
  "context_prompt current_personality user_prompt =
     ''As '' @ name current_personality @ '', a '' @ role current_personality
       @ '', respond to: '' @ user_prompt
       @ ''\<newline>                    \<newline>                    Remember: ''
       @ prompt current_personality"

definition apology :: "string \<Rightarrow> string" where
  "apology e = ''I apologize, but I encountered an error: '' @ e @ ''. Please try again.''"

definition none_has_no_send_message :: string where
  "none_has_no_send_message = [CHR 0x27] @ ''NoneType'' @ [CHR 0x27]
     @ '' object has no attribute '' @ [CHR 0x27] @ ''send_message'' @ [CHR 0x27]"

text \<open>
  The \<^verbatim>\<open>try\<close> block of the chat handler: the response of a turn that is not flagged.
  Every exception becomes the apology built from its text, also the one of calling
  \<^verbatim>\<open>send_message\<close> on \<^verbatim>\<open>None\<close>.
\<close>

definition generate_ai_response ::
    "provider \<Rightarrow> personality_info \<Rightarrow> string \<Rightarrow> world \<Rightarrow> string \<times> world" where
  "generate_ai_response prov current_personality user_prompt w =
     (case chat_session w of
        None \<Rightarrow> (apology none_has_no_send_message, w)
      | Some cs \<Rightarrow>
          (case send_message prov cs (context_prompt current_personality user_prompt) w of
             (Inr text, w') \<Rightarrow> (text, w')
           | (Inl e, w') \<Rightarrow> (apology e, w')))"

subsection \<open>Widget events and the sections of the script\<close>

text \<open>
  One pass of the script sees at most one widget event: a button that was clicked, with
  the values of the inputs it reads, or the text submitted to the chat input. A widget
  that the pass does not render cannot fire, so a section ignores the events of others.
\<close>

datatype event =
    Rerender
  | ValidateStart string
  | PersonalityButton string
  | GetRecommendation string string int
  | ClearChat
  | ChangeApiKey
  | ChatInput string

text \<open>
  How a section ends: the script goes on, \<^verbatim>\<open>st.rerun()\<close> or \<^verbatim>\<open>st.stop()\<close> was
  called, or an exception was not caught. The session state is the one at that moment.
\<close>

datatype flow = Continue world | Rerun world | Stop world | Uncaught py_error world

fun world_of :: "flow \<Rightarrow> world" where
  "world_of (Continue w) = w"
| "world_of (Rerun w) = w"
| "world_of (Stop w) = w"
| "world_of (Uncaught e w) = w"

definition and_then :: "flow \<Rightarrow> (world \<Rightarrow> flow) \<Rightarrow> flow" where
  "and_then f k = (case f of Continue w \<Rightarrow> k w | _ \<Rightarrow> f)"

definition setup_panel :: "provider \<Rightarrow> event \<Rightarrow> world \<Rightarrow> flow" where
  "setup_panel prov ev w =
     (case ev of
        ValidateStart api_key \<Rightarrow>
          (if api_key \<noteq> [] then
             (case validate_api_key prov api_key w of
                (Inr result, w') \<Rightarrow> Rerun (w'\<lparr>api_key_valid := True, model := Some result\<rparr>)
              | (Inl result, w') \<Rightarrow> Stop w')
           else Stop w)
      | _ \<Rightarrow> Stop w)"

fun personality_buttons :: "event \<Rightarrow> (string \<times> personality_info) list \<Rightarrow> world \<Rightarrow> flow" where
  "personality_buttons ev [] w = Continue w"
| "personality_buttons ev ((key, p) # items) w =
     (if ev = PersonalityButton key then
        (if key \<noteq> personality w then
           Rerun (w\<lparr>personality := key, messages := [], chat_session := None\<rparr>)
         else personality_buttons ev items w)
      else personality_buttons ev items w)"

definition quick_assessment :: "event \<Rightarrow> world \<Rightarrow> flow" where
  "quick_assessment ev w =
     (case ev of
        GetRecommendation age_group concern mood \<Rightarrow>
          (let r = rec_personality age_group concern mood
           in if r \<noteq> personality w then
                Rerun (w\<lparr>personality := r, messages := [], chat_session := None\<rparr>)
              else Continue w)
      | _ \<Rightarrow> Continue w)"

definition clear_chat :: "event \<Rightarrow> world \<Rightarrow> flow" where
  "clear_chat ev w =
     (if ev = ClearChat then Rerun (w\<lparr>messages := [], chat_session := None\<rparr>)
      else Continue w)"

definition change_api_key :: "event \<Rightarrow> world \<Rightarrow> flow" where
  "change_api_key ev w =
     (if ev = ChangeApiKey then
        Rerun (w\<lparr>api_key_valid := False, model := None, messages := [], chat_session := None\<rparr>)
      else Continue w)"

definition greeting_synthesis :: "personality_info \<Rightarrow> world \<Rightarrow> py_error + world" where
  "greeting_synthesis current_personality w =
     (if chat_session w = None then
        (case initialize_chat_session (personality w) w of
           Inl e \<Rightarrow> Inl e
         | Inr (ok, w') \<Rightarrow>
             (if ok then
                Inr (w'\<lparr>messages := messages w'
                  @ [\<lparr>msg_role = ''assistant'', content = greeting current_personality\<rparr>]\<rparr>)
              else Inr w'))
      else Inr w)"

definition chat_input :: "case_table \<Rightarrow> provider \<Rightarrow> personality_info \<Rightarrow> event \<Rightarrow> world \<Rightarrow> flow" where
  "chat_input tbl prov current_personality ev w =
     (case ev of
        ChatInput user_prompt \<Rightarrow>
          (if user_prompt \<noteq> [] then
             (let w1 = w\<lparr>messages := messages w
                         @ [\<lparr>msg_role = ''user'', content = user_prompt\<rparr>]\<rparr>;
                  (response, w2) =
                    (if check_crisis_keywords tbl user_prompt then (get_crisis_response, w1)
                     else generate_ai_response prov current_personality user_prompt w1)
              in Rerun (w2\<lparr>messages := messages w2
                         @ [\<lparr>msg_role = ''assistant'', content = response\<rparr>]\<rparr>))
           else Continue w)
      | _ \<Rightarrow> Continue w)"

definition chat_interface :: "case_table \<Rightarrow> provider \<Rightarrow> event \<Rightarrow> world \<Rightarrow> flow" where
  "chat_interface tbl prov ev w =
     (case PERSONALITIES (personality w) of
        None \<Rightarrow> Uncaught (KeyError (personality w)) w
      | Some current_personality \<Rightarrow>
          (case greeting_synthesis current_personality w of
             Inl e \<Rightarrow> Uncaught e w
           | Inr w1 \<Rightarrow> chat_input tbl prov current_personality ev w1))"

text \<open>One pass over the script, top to bottom.\<close>

definition script_pass :: "case_table \<Rightarrow> provider \<Rightarrow> event \<Rightarrow> world \<Rightarrow> flow" where
  "script_pass tbl prov ev w =
     (if \<not> api_key_valid w then setup_panel prov ev w
      else
        and_then (personality_buttons ev PERSONALITIES_items w) (\<lambda>w.
        and_then (quick_assessment ev w) (\<lambda>w.
        and_then (clear_chat ev w) (\<lambda>w.
        and_then (change_api_key ev w) (\<lambda>w.
        chat_interface tbl prov ev w)))))"

text \<open>
  The script as Streamlit runs it for one event: a pass, and after \<^verbatim>\<open>st.rerun()\<close>
  another pass from the top with no event, until a pass ends otherwise. \<open>None\<close> is a
  run that reruns forever.
\<close>

partial_function (option) script :: "case_table \<Rightarrow> provider \<Rightarrow> event \<Rightarrow> world \<Rightarrow> flow option" where
  "script tbl prov ev w =
     (case script_pass tbl prov ev w of
        Rerun w' \<Rightarrow> script tbl prov Rerender w'
      | f \<Rightarrow> Some f)"

text \<open>The session states a user can bring about, from the initial one.\<close>

inductive reachable :: "case_table \<Rightarrow> provider \<Rightarrow> world \<Rightarrow> bool"
  for tbl :: case_table and prov :: provider where
  reachable_init: "reachable tbl prov initial_state"
| reachable_step: "reachable tbl prov w \<Longrightarrow> script tbl prov ev w = Some f \<Longrightarrow> reachable tbl prov (world_of f)"

subsection \<open>The decision table as the specification words it\<close>

text \<open>
  Rows of age groups, concerns and persona, \<open>None\<close> standing for "any"; the first row
  that matches decides. This table is the wording of the specification, to be compared
  with \<open>rec_personality\<close>, which is the code.
\<close>

definition decision_table :: "(string list option \<times> string list option \<times> string) list" where
  "decision_table =
     [(Some [''13-17'', ''18-25''], Some [''Mental health'', ''Academic stress''], ''sage''),
      (Some [''Parent/Guardian''], Some [''Parenting'', ''Child development''], ''nurture''),
      (None, Some [''Child development''], ''spark''),
      (None, None, ''bridge'')]"

fun cell_matches :: "string list option \<Rightarrow> string \<Rightarrow> bool" where
  "cell_matches None x = True"
| "cell_matches (Some xs) x = (x \<in> set xs)"

fun first_match ::
    "(string list option \<times> string list option \<times> string) list \<Rightarrow> string \<Rightarrow> string \<Rightarrow> string option" where
  "first_match [] a c = None"
| "first_match ((ages, concerns, persona) # rows) a c =
     (if cell_matches ages a \<and> cell_matches concerns c then Some persona
      else first_match rows a c)"

subsection \<open>The invariant of the provider handle\<close>

text \<open>
  The invariant of the specification: the provider handle is there only when the
  credential is valid. \<open>gate\<close> is the pair of the two fields it is about.
\<close>

definition handle_inv :: "world \<Rightarrow> bool" where
  "handle_inv w = (model w \<noteq> None \<longrightarrow> api_key_valid w)"

definition gate :: "world \<Rightarrow> bool \<times> gen_model option" where
  "gate w = (api_key_valid w, model w)"

subsection \<open>One text before another\<close>

text \<open>
  \<open>occurs_before x y s\<close>: the text \<open>s\<close> has an occurrence of \<open>x\<close> and, after its
  end, an occurrence of \<open>y\<close>. It is the reading of "\<open>x\<close> precedes \<open>y\<close> in \<open>s\<close>"
  that the properties of the request use.
\<close>

fun occurs_before :: "string \<Rightarrow> string \<Rightarrow> string \<Rightarrow> bool" where
  "occurs_before x y [] = (x = [] \<and> y = [])"
| "occurs_before x y (c # cs) =
     ((prefix x (c # cs) \<and> str_contains y (drop (length x) (c # cs)))
      \<or> occurs_before x y cs)"

subsection \<open>What the Unicode database says, and spelling a phrase\<close>

text \<open>
  Three facts of the Unicode lowercase mapping are all that the crisis filter depends
  on: the Kelvin sign U+212A becomes the letter \<open>k\<close>; the capital I with dot above,
  U+0130, becomes \<open>i\<close> followed by the combining dot U+0307; every other code point
  outside ASCII becomes one or more code points outside ASCII. \<open>example_table\<close> is a
  table with these facts that changes nothing else.
\<close>

definition kelvin_sign :: string where
  "kelvin_sign = [CHR 0xE2, CHR 0x84, CHR 0xAA]"

definition dotted_capital_i :: string where
  "dotted_capital_i = [CHR 0xC4, CHR 0xB0]"

definition non_ascii_point :: "string \<Rightarrow> bool" where
  "non_ascii_point p = (p \<noteq> [] \<and> list_all (\<lambda>b. \<not> is_ascii b) p)"

definition unicode_lowercase :: "case_table \<Rightarrow> bool" where
  "unicode_lowercase tbl =
     (\<forall>earlier p later. non_ascii_point p \<longrightarrow>
        (p = kelvin_sign \<longrightarrow> tbl earlier p later = ''k'')
      \<and> (p = dotted_capital_i \<longrightarrow> tbl earlier p later = [CHR ''i'', CHR 0xCC, CHR 0x87])
      \<and> (p \<noteq> kelvin_sign \<longrightarrow> p \<noteq> dotted_capital_i \<longrightarrow> non_ascii_point (tbl earlier p later)))"

definition example_table :: case_table where
  "example_table earlier p later =
     (if p = kelvin_sign then ''k''
      else if p = dotted_capital_i then [CHR ''i'', CHR 0xCC, CHR 0x87]
      else p)"

definition same_letter :: "char \<Rightarrow> char \<Rightarrow> bool" where
  "same_letter c d =
     (d = c \<or> (97 \<le> (of_char c :: nat) \<and> (of_char c :: nat) \<le> 122
               \<and> (of_char d :: nat) + 32 = of_char c))"

definition spells :: "char \<Rightarrow> string \<Rightarrow> bool" where
  "spells c p = ((length p = 1 \<and> same_letter c (hd p)) \<or> (c = CHR ''k'' \<and> p = kelvin_sign))"

text \<open>
  A code point spells a letter of a phrase when it is that letter, small or capital, or,
  for \<open>k\<close>, the Kelvin sign. \<open>spelled_at\<close>: the code points start with a spelling of
  the phrase; \<open>spelled_in\<close>: some position of the code points does. \<open>point\<close> is what
  \<open>code_points\<close> yields, \<open>plain\<close> a phrase of ASCII characters none of them capital.
\<close>

definition point :: "string \<Rightarrow> bool" where
  "point p = ((length p = 1 \<and> is_ascii (hd p)) \<or> non_ascii_point p)"

fun spelled_at :: "string \<Rightarrow> string list \<Rightarrow> bool" where
  "spelled_at [] ps = True"
| "spelled_at (c # k) [] = False"
| "spelled_at (c # k) (p # ps) = (spells c p \<and> spelled_at k ps)"

fun spelled_in :: "string \<Rightarrow> string list \<Rightarrow> bool" where
  "spelled_in k [] = (k = [])"
| "spelled_in k (p # ps) = (spelled_at k (p # ps) \<or> spelled_in k ps)"

definition plain :: "string \<Rightarrow> bool" where
  "plain k = list_all (\<lambda>c. is_ascii c \<and> lower_char c = c) k"

subsection \<open>What the chat object holds\<close>

text \<open>
  The history of the chat object of a session, stated as an invariant of the session:
  the two turns that \<open>initialize_chat_session\<close> seeds for the active persona, then
  pairs of a text sent and the answer to it (\<open>exchange_turns\<close>). \<open>answered_in\<close> says
  of such a pair that the call log has a \<^verbatim>\<open>send_message\<close> call with that text which
  the provider answered with that answer. \<open>rerun_inv\<close> is what holds of the state in
  which a pass ends, also when it ends in \<^verbatim>\<open>st.rerun()\<close> with the chat object
  dropped; \<open>session_inv\<close> is what holds between two runs of the script, where an
  unlocked session has its chat object; \<open>pass_ok\<close> puts the two together for the
  end of one pass.
\<close>

fun exchange_turns :: "(string \<times> string) list \<Rightarrow> turn list" where
  "exchange_turns [] = []"
| "exchange_turns ((sent, answer) # xs) =
     [(''user'', [sent]), (''model'', [answer])] @ exchange_turns xs"

fun sends :: "string \<Rightarrow> call \<Rightarrow> bool" where
  "sends text (SendMessage cs sent) = (sent = text)"
| "sends text (GenerateContent m sent) = False"

definition answered_in :: "provider \<Rightarrow> call list \<Rightarrow> string \<times> string \<Rightarrow> bool" where
  "answered_in prov log x =
     list_ex (\<lambda>n. sends (fst x) (log ! n) \<and> prov (take (Suc n) log) = Inr (snd x))
       [0..<length log]"

definition history_inv :: "provider \<Rightarrow> world \<Rightarrow> personality_info \<Rightarrow> bool" where
  "history_inv prov w p =
     (\<forall>cs. chat_session w = Some cs \<longrightarrow>
        (\<exists>xs. history cs = seeded_history p @ exchange_turns xs
           \<and> list_all (answered_in prov (calls w)) xs))"

definition rerun_inv :: "provider \<Rightarrow> world \<Rightarrow> bool" where
  "rerun_inv prov w =
     (\<exists>p. PERSONALITIES (personality w) = Some p
        \<and> (api_key_valid w \<longrightarrow> model w \<noteq> None)
        \<and> history_inv prov w p)"

definition session_inv :: "provider \<Rightarrow> world \<Rightarrow> bool" where
  "session_inv prov w = (rerun_inv prov w \<and> (api_key_valid w \<longrightarrow> chat_session w \<noteq> None))"

definition pass_ok :: "provider \<Rightarrow> flow \<Rightarrow> bool" where
  "pass_ok prov f =
     (rerun_inv prov (world_of f)
      \<and> ((\<forall>w'. f \<noteq> Rerun w') \<longrightarrow> session_inv prov (world_of f)))"

section \<open>Properties\<close>

subsection \<open>Strings\<close>

lemma example_table_facts: "unicode_lowercase example_table"
  by (auto simp: unicode_lowercase_def example_table_def kelvin_sign_def dotted_capital_i_def
      non_ascii_point_def is_ascii_def)

lemma lower_char_same_letter:
  assumes "is_ascii d" "is_ascii c" "lower_char c = c"
  shows "lower_char d = c \<longleftrightarrow> same_letter c d"
proof (cases "65 \<le> (of_char d :: nat) \<and> (of_char d :: nat) \<le> 90")
  case True
  then have low: "lower_char d = char_of ((of_char d :: nat) + 32)"
    by (simp add: lower_char_def)
  have val: "(of_char (char_of ((of_char d :: nat) + 32) :: char) :: nat) = of_char d + 32"
    using True by (simp add: of_char_of)
  have "lower_char d = c \<longleftrightarrow> (of_char d :: nat) + 32 = of_char c"
  proof
    assume "lower_char d = c"
    with low val show "(of_char d :: nat) + 32 = of_char c" by simp
  next
    assume eq: "(of_char d :: nat) + 32 = of_char c"
    have "char_of ((of_char d :: nat) + 32) = (char_of (of_char c :: nat) :: char)"
      by (simp only: eq)
    with low show "lower_char d = c" by simp
  qed
  moreover have "d \<noteq> c"
  proof
    assume "d = c"
    with assms(3) low val have "(of_char d :: nat) = of_char d + 32" by simp
    then show False by simp
  qed
  ultimately show ?thesis
    using True by (auto simp: same_letter_def)
next
  case False
  then have "lower_char d = d"
    by (auto simp: lower_char_def)
  then show ?thesis
    using False by (auto simp: same_letter_def)
qed

lemma points_of_code_points: "list_all point (code_points s)"
proof (induction s rule: code_points.induct)
  case 1
  show ?case by simp
next
  case (2 c cs)
  show ?case
  proof (cases "is_ascii c")
    case True
    with 2 show ?thesis by (simp add: point_def)
  next
    case False
    have "\<not> is_ascii b" if "b \<in> set (takeWhile continuation cs)" for b
      using set_takeWhileD [OF that] by (simp add: continuation_def is_ascii_def)
    then have "non_ascii_point (c # takeWhile continuation cs)"
      using False by (simp add: non_ascii_point_def list_all_iff)
    with 2 False show ?thesis by (simp add: point_def)
  qed
qed

lemma same_letter_ascii: "is_ascii c \<Longrightarrow> same_letter c d \<Longrightarrow> is_ascii d"
  by (auto simp: same_letter_def is_ascii_def)

lemma non_ascii_point_not_ascii: "non_ascii_point p \<Longrightarrow> \<not> list_all is_ascii p"
  by (cases p) (auto simp: non_ascii_point_def)

lemma lower_point_ascii:
  "is_ascii d \<Longrightarrow> lower_point tbl earlier [d] later = [lower_char d]"
  by (simp add: lower_point_def)

lemma lower_point_non_ascii:
  "non_ascii_point p \<Longrightarrow> lower_point tbl earlier p later = tbl earlier p later"
  by (simp add: lower_point_def non_ascii_point_not_ascii)

lemma kelvin_point: "non_ascii_point kelvin_sign"
  by (simp add: non_ascii_point_def kelvin_sign_def is_ascii_def)

lemma dotted_point: "non_ascii_point dotted_capital_i"
  by (simp add: non_ascii_point_def dotted_capital_i_def is_ascii_def)

lemma spells_non_ascii:
  "is_ascii c \<Longrightarrow> non_ascii_point p \<Longrightarrow> spells c p \<longleftrightarrow> c = CHR ''k'' \<and> p = kelvin_sign"
proof -
  assume c: "is_ascii c" and p: "non_ascii_point p"
  have "\<not> same_letter c (hd p)"
  proof
    assume "same_letter c (hd p)"
    from same_letter_ascii [OF c this] p show False
      by (cases p) (auto simp: non_ascii_point_def)
  qed
  then show ?thesis by (auto simp: spells_def)
qed

lemma spells_ascii: "spells c [d] \<longleftrightarrow> same_letter c d"
  by (auto simp: spells_def kelvin_sign_def)

lemma prefix_spelled_at:
  assumes facts: "unicode_lowercase tbl"
  shows "list_all point ps \<Longrightarrow> plain k \<Longrightarrow> k = [] \<or> last k \<noteq> CHR ''i'' \<Longrightarrow>
    prefix k (concat (lower_points tbl earlier ps)) \<longleftrightarrow> spelled_at k ps"
proof (induction k arbitrary: ps earlier)
  case Nil
  show ?case by simp
next
  case (Cons c k)
  from Cons.prems(2) have c: "is_ascii c" "lower_char c = c" and k: "plain k"
    by (simp_all add: plain_def)
  from Cons.prems(3) have k_end: "k = [] \<or> last k \<noteq> CHR ''i''" and c_end: "k = [] \<Longrightarrow> c \<noteq> CHR ''i''"
    by (auto split: if_splits)
  show ?case
  proof (cases ps)
    case Nil
    then show ?thesis by simp
  next
    case (Cons p ps')
    with Cons.prems(1) have p: "point p" and ps': "list_all point ps'"
      by simp_all
    let ?rest = "concat (lower_points tbl (earlier @ [p]) ps')"
    have IH: "prefix k ?rest \<longleftrightarrow> spelled_at k ps'"
      by (rule Cons.IH [OF ps' k k_end])
    from p consider (ascii) d where "p = [d]" "is_ascii d" | (other) "non_ascii_point p"
      unfolding point_def by (cases p) auto
    then show ?thesis
    proof cases
      case ascii
      have "prefix (c # k) (lower_char d # ?rest) \<longleftrightarrow> lower_char d = c \<and> prefix k ?rest"
        by auto
      then show ?thesis
        using IH lower_char_same_letter [OF ascii(2) c]
        by (simp add: Cons ascii lower_point_ascii spells_ascii)
    next
      case other
      have out: "lower_point tbl earlier p ps' = tbl earlier p ps'"
        by (rule lower_point_non_ascii [OF other])
      from facts other have table:
        "p = kelvin_sign \<Longrightarrow> tbl earlier p ps' = ''k''"
        "p = dotted_capital_i \<Longrightarrow> tbl earlier p ps' = [CHR ''i'', CHR 0xCC, CHR 0x87]"
        "p \<noteq> kelvin_sign \<Longrightarrow> p \<noteq> dotted_capital_i \<Longrightarrow> non_ascii_point (tbl earlier p ps')"
        unfolding unicode_lowercase_def by blast+
      consider (kelvin) "p = kelvin_sign" | (dotted) "p = dotted_capital_i"
        | (rest) "p \<noteq> kelvin_sign" "p \<noteq> dotted_capital_i"
        by blast
      then show ?thesis
      proof cases
        case kelvin
        have o: "lower_point tbl earlier p ps' = ''k''"
          using out table(1) [OF kelvin] by simp
        have sp: "spells c p \<longleftrightarrow> c = CHR ''k''"
          using spells_non_ascii [OF c(1) other] kelvin by simp
        have "prefix (c # k) (CHR ''k'' # ?rest) \<longleftrightarrow> c = CHR ''k'' \<and> prefix k ?rest"
          by auto
        then show ?thesis
          using IH by (simp add: Cons o sp)
      next
        case dotted
        have o: "lower_point tbl earlier p ps' = [CHR ''i'', CHR 0xCC, CHR 0x87]"
          using out table(2) [OF dotted] by simp
        have "dotted_capital_i \<noteq> kelvin_sign"
          by (simp add: dotted_capital_i_def kelvin_sign_def)
        then have sp: "\<not> spells c p"
          using spells_non_ascii [OF c(1) other] dotted by simp
        have no: "\<not> prefix (c # k) (CHR ''i'' # CHR 0xCC # CHR 0x87 # ?rest)"
        proof (cases k)
          case Nil
          with c_end show ?thesis by simp
        next
          case (Cons c2 k3)
          with k have "is_ascii c2" by (simp add: plain_def)
          then have "c2 \<noteq> CHR 0xCC" by (auto simp: is_ascii_def)
          then show ?thesis by (simp add: Cons)
        qed
        show ?thesis
          using no by (simp add: \<open>ps = p # ps'\<close> o sp)
      next
        case rest
        from table(3) [OF rest] obtain o1 os where o: "tbl earlier p ps' = o1 # os" "\<not> is_ascii o1"
          by (cases "tbl earlier p ps'") (auto simp: non_ascii_point_def)
        with c(1) have ne: "c \<noteq> o1" by auto
        have sp: "\<not> spells c p"
          using spells_non_ascii [OF c(1) other] rest by simp
        show ?thesis
          using ne by (simp add: Cons out o sp)
      qed
    qed
  qed
qed

lemma str_contains_sublist: "str_contains keyword s = sublist keyword s"
  by (induction s) (simp_all add: sublist_Cons_right)

lemma str_contains_iff:
  "str_contains keyword s \<longleftrightarrow> (\<exists>before after. s = before @ keyword @ after)"
  by (simp add: str_contains_sublist sublist_def)

lemma no_prefix_non_ascii:
  "k \<noteq> [] \<Longrightarrow> is_ascii (hd k) \<Longrightarrow> \<not> is_ascii b \<Longrightarrow> \<not> prefix k (b # xs)"
  by (cases k) auto

lemma sublist_skip_non_ascii:
  "k \<noteq> [] \<Longrightarrow> is_ascii (hd k) \<Longrightarrow> list_all (\<lambda>b. \<not> is_ascii b) bs \<Longrightarrow>
   sublist k (bs @ xs) \<longleftrightarrow> sublist k xs"
  by (induction bs) (simp_all add: sublist_Cons_right no_prefix_non_ascii)

lemma sublist_after_point:
  assumes facts: "unicode_lowercase tbl" and p: "point p"
    and k: "k \<noteq> []" "is_ascii (hd k)"
  shows "sublist k (lower_point tbl earlier p later @ xs)
    \<longleftrightarrow> prefix k (lower_point tbl earlier p later @ xs) \<or> sublist k xs"
proof -
  from p consider (ascii) d where "p = [d]" "is_ascii d" | (other) "non_ascii_point p"
    unfolding point_def by (cases p) auto
  then show ?thesis
  proof cases
    case ascii
    then show ?thesis
      by (simp add: lower_point_ascii sublist_Cons_right)
  next
    case other
    have out: "lower_point tbl earlier p later = tbl earlier p later"
      by (rule lower_point_non_ascii [OF other])
    from facts other have table:
      "p = kelvin_sign \<Longrightarrow> tbl earlier p later = ''k''"
      "p = dotted_capital_i \<Longrightarrow> tbl earlier p later = [CHR ''i'', CHR 0xCC, CHR 0x87]"
      "p \<noteq> kelvin_sign \<Longrightarrow> p \<noteq> dotted_capital_i \<Longrightarrow> non_ascii_point (tbl earlier p later)"
      unfolding unicode_lowercase_def by blast+
    consider (kelvin) "p = kelvin_sign" | (dotted) "p = dotted_capital_i"
      | (rest) "p \<noteq> kelvin_sign" "p \<noteq> dotted_capital_i"
      by blast
    then show ?thesis
    proof cases
      case kelvin
      show ?thesis
        by (simp add: out table(1) [OF kelvin] sublist_Cons_right)
    next
      case dotted
      have "\<not> is_ascii (CHR 0xCC)" "\<not> is_ascii (CHR 0x87)"
        by (simp_all add: is_ascii_def)
      then have "\<not> prefix k (CHR 0xCC # CHR 0x87 # xs)" "\<not> prefix k (CHR 0x87 # xs)"
        using k by (simp_all add: no_prefix_non_ascii)
      then show ?thesis
        by (simp add: out table(2) [OF dotted] sublist_Cons_right)
    next
      case rest
      from table(3) [OF rest] have shape: "tbl earlier p later \<noteq> []"
        "list_all (\<lambda>b. \<not> is_ascii b) (tbl earlier p later)"
        by (simp_all add: non_ascii_point_def)
      then obtain o1 os where o: "tbl earlier p later = o1 # os" "\<not> is_ascii o1"
        by (cases "tbl earlier p later") auto
      have "\<not> prefix k (tbl earlier p later @ xs)"
        using no_prefix_non_ascii [OF k o(2)] by (simp add: o(1))
      then show ?thesis
        using sublist_skip_non_ascii [OF k shape(2)] by (simp add: out)
    qed
  qed
qed

lemma sublist_spelled_in:
  assumes facts: "unicode_lowercase tbl"
    and k: "plain k" "k \<noteq> []" "last k \<noteq> CHR ''i''"
  shows "list_all point ps \<Longrightarrow>
    sublist k (concat (lower_points tbl earlier ps)) \<longleftrightarrow> spelled_in k ps"
proof (induction ps arbitrary: earlier)
  case Nil
  show ?case by simp
next
  case (Cons p ps)
  then have p: "point p" and ps: "list_all point ps"
    by simp_all
  from k have hd: "is_ascii (hd k)"
    by (cases k) (simp_all add: plain_def)
  have here: "prefix k (concat (lower_points tbl earlier (p # ps))) \<longleftrightarrow> spelled_at k (p # ps)"
    using k by (intro prefix_spelled_at [OF facts Cons.prems]) simp_all
  have later: "sublist k (concat (lower_points tbl (earlier @ [p]) ps)) \<longleftrightarrow> spelled_in k ps"
    by (rule Cons.IH [OF ps])
  from sublist_after_point [OF facts p k(2) hd, of earlier ps
      "concat (lower_points tbl (earlier @ [p]) ps)"] here later
  show ?case by simp
qed

lemma keywords_plain:
  "list_all (\<lambda>k. plain k \<and> k \<noteq> [] \<and> last k \<noteq> CHR ''i'') crisis_keywords"
  by (simp add: crisis_keywords_def plain_def is_ascii_def lower_char_def)

lemma check_crisis_keywords_spelled:
  assumes "unicode_lowercase tbl"
  shows "check_crisis_keywords tbl message
    \<longleftrightarrow> list_ex (\<lambda>keyword. spelled_in keyword (code_points message)) crisis_keywords"
proof -
  have "str_contains k (lower tbl message) \<longleftrightarrow> spelled_in k (code_points message)"
    if "k \<in> set crisis_keywords" for k
  proof -
    from that keywords_plain have "plain k" "k \<noteq> []" "last k \<noteq> CHR ''i''"
      by (auto simp: list_all_iff)
    from sublist_spelled_in [OF assms this points_of_code_points]
    show ?thesis by (simp add: str_contains_sublist lower_def)
  qed
  then show ?thesis
    by (auto simp: check_crisis_keywords_def list_ex_iff)
qed

lemma ascii_not_continuation: "is_ascii c \<Longrightarrow> \<not> continuation c"
  by (simp add: is_ascii_def continuation_def)

lemma code_points_append:
  "ys = [] \<or> \<not> continuation (hd ys) \<Longrightarrow>
   code_points (xs @ ys) = code_points xs @ code_points ys"
proof (induction xs rule: code_points.induct)
  case 1
  show ?case by simp
next
  case (2 c cs)
  show ?case
  proof (cases "is_ascii c")
    case True
    with 2 show ?thesis by simp
  next
    case False
    show ?thesis
    proof (cases "\<forall>b \<in> set cs. continuation b")
      case True
      then have cs: "takeWhile continuation cs = cs" "dropWhile continuation cs = []"
        by (simp_all add: takeWhile_eq_all_conv)
      from "2.prems" have ys: "takeWhile continuation ys = []" "dropWhile continuation ys = ys"
        by (cases ys; simp)+
      from True have app: "takeWhile continuation (cs @ ys) = cs @ takeWhile continuation ys"
        "dropWhile continuation (cs @ ys) = dropWhile continuation ys"
        by (simp_all add: takeWhile_append2 dropWhile_append2)
      show ?thesis
        using False by (simp add: app cs ys)
    next
      case all: False
      then have "takeWhile continuation (cs @ ys) = takeWhile continuation cs"
        "dropWhile continuation (cs @ ys) = dropWhile continuation cs @ ys"
        by (auto simp: takeWhile_append1 dropWhile_append1)
      with False "2.IH"(2) [OF False "2.prems"] show ?thesis by simp
    qed
  qed
qed

lemma code_points_ascii:
  "list_all is_ascii v \<Longrightarrow> code_points (v @ ys) = map (\<lambda>c. [c]) v @ code_points ys"
  by (induction v) simp_all

lemma spelled_at_letters:
  "list_all2 same_letter k v \<Longrightarrow> spelled_at k (map (\<lambda>c. [c]) v @ ps)"
  by (induction k v rule: list_all2_induct) (simp_all add: spells_ascii)

lemma spelled_at_imp_in: "spelled_at k ps \<Longrightarrow> spelled_in k ps"
  by (cases ps; cases k) simp_all

lemma spelled_in_append: "spelled_in k ps \<Longrightarrow> spelled_in k (qs @ ps)"
  by (induction qs) simp_all

lemma letters_ascii:
  "list_all2 same_letter k v \<Longrightarrow> list_all is_ascii k \<Longrightarrow> list_all is_ascii v"
  by (induction k v rule: list_all2_induct) (auto intro: same_letter_ascii)

lemma contains_variant_spelled:
  assumes "message = before @ variant @ after" and "list_all2 same_letter k variant"
    and "plain k" "k \<noteq> []"
  shows "spelled_in k (code_points message)"
proof -
  from assms(3) have k_ascii: "list_all is_ascii k"
    by (simp add: plain_def list_all_iff)
  from letters_ascii [OF assms(2) k_ascii] have v: "list_all is_ascii variant" .
  from assms(2,4) have "variant \<noteq> []"
    by (auto dest: list_all2_lengthD)
  with v have "\<not> continuation (hd (variant @ after))"
    by (cases variant) (simp_all add: ascii_not_continuation)
  then have "code_points message
      = code_points before @ map (\<lambda>c. [c]) variant @ code_points after"
    by (simp add: assms(1) code_points_append code_points_ascii [OF v])
  moreover have "spelled_in k (map (\<lambda>c. [c]) variant @ code_points after)"
    by (rule spelled_at_imp_in [OF spelled_at_letters [OF assms(2)]])
  ultimately show ?thesis
    by (simp add: spelled_in_append)
qed

lemma kelvin_variant_spelled:
  "spelled_in ''kill myself'' (code_points ([CHR 0xE2, CHR 0x84, CHR 0xAA] @ ''ILL MYSELF''))"
  by code_simp

lemma hello_not_flagged: "\<not> check_crisis_keywords example_table ''Hello there''"
  by code_simp

subsection \<open>The crisis filter decides the keyword match\<close>

text \<open>
  C1. With the lowercase mapping of Unicode, for every text: \<open>check_crisis_keywords\<close>
  is true exactly when the lowercased text has one of the six phrases \<open>suicide\<close>,
  \<open>kill myself\<close>, \<open>end it all\<close>, \<open>hurt myself\<close>, \<open>die\<close>, \<open>worthless\<close> as a
  substring; and that is exactly when consecutive code points of the text itself spell one
  of the phrases, each letter small or capital, a \<open>k\<close> also as the Kelvin sign. In
  particular a text that contains a phrase in any mix of small and capital letters is
  flagged, and a text in which no phrase is spelled is not.
\<close>

theorem check_crisis_keywords_iff:
  assumes "unicode_lowercase tbl"
  shows "(check_crisis_keywords tbl message \<longleftrightarrow>
      (\<exists>keyword \<in> {''suicide'', ''kill myself'', ''end it all'', ''hurt myself'', ''die'',
          ''worthless''}. \<exists>before after. lower tbl message = before @ keyword @ after))
   \<and> (check_crisis_keywords tbl message \<longleftrightarrow>
      (\<exists>keyword \<in> {''suicide'', ''kill myself'', ''end it all'', ''hurt myself'', ''die'',
          ''worthless''}. spelled_in keyword (code_points message)))
   \<and> ((\<exists>keyword \<in> {''suicide'', ''kill myself'', ''end it all'', ''hurt myself'', ''die'',
          ''worthless''}. \<exists>before variant after. message = before @ variant @ after
            \<and> list_all2 same_letter keyword variant)
        \<longrightarrow> check_crisis_keywords tbl message)"
proof -
  let ?K = "{''suicide'', ''kill myself'', ''end it all'', ''hurt myself'', ''die'', ''worthless''}"
  have K: "set crisis_keywords = ?K"
    unfolding crisis_keywords_def by (simp only: list.set)
  have first: "check_crisis_keywords tbl message \<longleftrightarrow>
      (\<exists>keyword \<in> ?K. \<exists>before after. lower tbl message = before @ keyword @ after)"
    unfolding check_crisis_keywords_def list_ex_iff K str_contains_iff ..
  have second: "check_crisis_keywords tbl message \<longleftrightarrow>
      (\<exists>keyword \<in> ?K. spelled_in keyword (code_points message))"
    unfolding check_crisis_keywords_spelled [OF assms] list_ex_iff K ..
  have third: "check_crisis_keywords tbl message"
    if "\<exists>keyword \<in> ?K. \<exists>before variant after. message = before @ variant @ after
            \<and> list_all2 same_letter keyword variant"
  proof -
    from that obtain keyword where kw: "keyword \<in> ?K"
      and "\<exists>before variant after. message = before @ variant @ after
            \<and> list_all2 same_letter keyword variant"
      by (rule bexE)
    then obtain before variant after where m: "message = before @ variant @ after"
      and v: "list_all2 same_letter keyword variant"
      by (elim exE conjE)
    from kw have "keyword \<in> set crisis_keywords"
      by (simp only: K)
    with keywords_plain have "plain keyword" "keyword \<noteq> []"
      by (simp_all add: list_all_iff)
    from contains_variant_spelled [OF m v this] kw
    have "\<exists>keyword \<in> ?K. spelled_in keyword (code_points message)"
      by (rule bexI [where P = "\<lambda>keyword. spelled_in keyword (code_points message)"])
    with second show ?thesis
      by (simp only:)
  qed
  show ?thesis
  proof (intro conjI impI)
    show "check_crisis_keywords tbl message \<longleftrightarrow>
      (\<exists>keyword \<in> ?K. \<exists>before after. lower tbl message = before @ keyword @ after)"
      by (rule first)
    show "check_crisis_keywords tbl message \<longleftrightarrow>
      (\<exists>keyword \<in> ?K. spelled_in keyword (code_points message))"
      by (rule second)
    show "check_crisis_keywords tbl message"
      if "\<exists>keyword \<in> ?K. \<exists>before variant after. message = before @ variant @ after
            \<and> list_all2 same_letter keyword variant"
      using that by (rule third)
  qed
qed

theorem check_crisis_keywords_iff_witness:
  "check_crisis_keywords example_table ([CHR 0xE2, CHR 0x84, CHR 0xAA] @ ''ILL MYSELF'')
   \<and> check_crisis_keywords example_table ''The plant will DIE''
   \<and> \<not> (\<exists>keyword \<in> {''suicide'', ''kill myself'', ''end it all'', ''hurt myself'', ''die'',
          ''worthless''}. \<exists>before after.
            lower example_table ''Hello there'' = before @ keyword @ after)"
proof (intro conjI)
  note t = check_crisis_keywords_iff [OF example_table_facts]
  have "\<exists>keyword \<in> {''suicide'', ''kill myself'', ''end it all'', ''hurt myself'', ''die'',
      ''worthless''}. spelled_in keyword
        (code_points ([CHR 0xE2, CHR 0x84, CHR 0xAA] @ ''ILL MYSELF''))"
    by (rule bexI [where x = "''kill myself''"], rule kelvin_variant_spelled) simp
  then show "check_crisis_keywords example_table
      ([CHR 0xE2, CHR 0x84, CHR 0xAA] @ ''ILL MYSELF'')"
    by (simp only: t [THEN conjunct2, THEN conjunct1])
  have "''The plant will DIE'' = ''The plant will '' @ ''DIE'' @ []
      \<and> list_all2 same_letter ''die'' ''DIE''"
    by (simp add: same_letter_def)
  then have "\<exists>before variant after. ''The plant will DIE'' = before @ variant @ after
      \<and> list_all2 same_letter ''die'' variant"
    by (intro exI)
  then have "\<exists>keyword \<in> {''suicide'', ''kill myself'', ''end it all'', ''hurt myself'', ''die'',
      ''worthless''}. \<exists>before variant after. ''The plant will DIE'' = before @ variant @ after
      \<and> list_all2 same_letter keyword variant"
    by (rule bexI [where x = "''die''"]) simp
  then show "check_crisis_keywords example_table ''The plant will DIE''"
    by (rule t [THEN conjunct2, THEN conjunct2, THEN mp])
  show "\<not> (\<exists>keyword \<in> {''suicide'', ''kill myself'', ''end it all'', ''hurt myself'', ''die'',
      ''worthless''}. \<exists>before after.
        lower example_table ''Hello there'' = before @ keyword @ after)"
    using hello_not_flagged
    unfolding t [THEN conjunct1, of "''Hello there''"] .
qed

subsection \<open>The sections of the script, event by event\<close>

lemma personality_buttons_other:
  "(\<And>key. ev \<noteq> PersonalityButton key) \<Longrightarrow> personality_buttons ev items w = Continue w"
  by (induction items) auto

lemma personality_buttons_same:
  "key = personality w \<Longrightarrow> personality_buttons (PersonalityButton key) items w = Continue w"
  by (induction items) auto

lemma personality_buttons_switch:
  "key \<noteq> personality w \<Longrightarrow>
   personality_buttons (PersonalityButton key) items w =
     (if map_of items key \<noteq> None
      then Rerun (w\<lparr>personality := key, messages := [], chat_session := None\<rparr>)
      else Continue w)"
  by (induction items) auto

lemma chat_input_other:
  "(\<And>p. ev \<noteq> ChatInput p) \<Longrightarrow> chat_input tbl prov cp ev w = Continue w"
  by (cases ev) (auto simp: chat_input_def)

lemma chat_interface_other:
  "(\<And>p. ev \<noteq> ChatInput p) \<Longrightarrow> chat_interface tbl prov ev w = chat_interface tbl prov Rerender w"
  by (simp add: chat_interface_def chat_input_other split: option.split sum.split)

lemma chat_interface_Rerender_not_Rerun: "chat_interface tbl prov Rerender w \<noteq> Rerun w'"
  by (simp add: chat_interface_def chat_input_other split: option.split sum.split)

lemma script_pass_Rerender:
  "script_pass tbl prov Rerender w =
     (if \<not> api_key_valid w then Stop w else chat_interface tbl prov Rerender w)"
  by (simp add: script_pass_def setup_panel_def personality_buttons_other quick_assessment_def
      clear_chat_def change_api_key_def and_then_def)

lemma script_pass_Rerender_not_Rerun: "script_pass tbl prov Rerender w \<noteq> Rerun w'"
  by (simp add: script_pass_Rerender chat_interface_Rerender_not_Rerun)

lemma script_Rerender: "script tbl prov Rerender w = Some (script_pass tbl prov Rerender w)"
  using script_pass_Rerender_not_Rerun [of tbl prov w]
  by (subst script.simps) (simp split: flow.split)

lemma script_eq:
  "script tbl prov ev w =
     Some (case script_pass tbl prov ev w of
             Rerun w' \<Rightarrow> script_pass tbl prov Rerender w'
           | f \<Rightarrow> f)"
  by (subst script.simps) (simp add: script_Rerender split: flow.split)

lemma and_then_simps:
  "and_then (Continue w) k = k w"
  "and_then (Rerun w) k = Rerun w"
  "and_then (Stop w) k = Stop w"
  "and_then (Uncaught e w) k = Uncaught e w"
  by (simp_all add: and_then_def)

lemma setup_panel_other:
  "(\<And>k. ev \<noteq> ValidateStart k) \<Longrightarrow> setup_panel prov ev w = Stop w"
  by (cases ev) (auto simp: setup_panel_def)

lemma quick_assessment_other:
  "(\<And>a c m. ev \<noteq> GetRecommendation a c m) \<Longrightarrow> quick_assessment ev w = Continue w"
  by (cases ev) (auto simp: quick_assessment_def)

lemma script_pass_GetRecommendation:
  "script_pass tbl prov (GetRecommendation a c m) w =
     (if \<not> api_key_valid w then Stop w
      else and_then (quick_assessment (GetRecommendation a c m) w)
             (chat_interface tbl prov Rerender))"
  by (simp add: script_pass_def setup_panel_other personality_buttons_other clear_chat_def
      change_api_key_def and_then_simps
      chat_interface_other [where ev = "GetRecommendation a c m"])

lemma script_pass_PersonalityButton:
  "script_pass tbl prov (PersonalityButton key) w =
     (if \<not> api_key_valid w then Stop w
      else and_then (personality_buttons (PersonalityButton key) PERSONALITIES_items w)
             (chat_interface tbl prov Rerender))"
  by (simp add: script_pass_def setup_panel_other quick_assessment_other clear_chat_def
      change_api_key_def and_then_simps
      chat_interface_other [where ev = "PersonalityButton key"])

lemma script_pass_ClearChat:
  "script_pass tbl prov ClearChat w =
     (if \<not> api_key_valid w then Stop w
      else Rerun (w\<lparr>messages := [], chat_session := None\<rparr>))"
  by (simp add: script_pass_def setup_panel_other quick_assessment_other clear_chat_def
      personality_buttons_other and_then_simps)

lemma script_pass_ChangeApiKey:
  "script_pass tbl prov ChangeApiKey w =
     (if \<not> api_key_valid w then Stop w
      else Rerun (w\<lparr>api_key_valid := False, model := None, messages := [],
             chat_session := None\<rparr>))"
  by (simp add: script_pass_def setup_panel_other quick_assessment_other clear_chat_def
      change_api_key_def personality_buttons_other and_then_simps)

lemma script_pass_ChatInput:
  "script_pass tbl prov (ChatInput user_prompt) w =
     (if \<not> api_key_valid w then Stop w else chat_interface tbl prov (ChatInput user_prompt) w)"
  by (simp add: script_pass_def setup_panel_other quick_assessment_other clear_chat_def
      change_api_key_def personality_buttons_other and_then_simps)

lemma script_pass_ValidateStart:
  "script_pass tbl prov (ValidateStart api_key) w =
     (if \<not> api_key_valid w then setup_panel prov (ValidateStart api_key) w
      else chat_interface tbl prov Rerender w)"
  by (simp add: script_pass_def quick_assessment_other clear_chat_def
      change_api_key_def personality_buttons_other and_then_simps
      chat_interface_other [where ev = "ValidateStart api_key"])

subsection \<open>The recommendation\<close>

text \<open>
  C3. For every age group and concern (so also for every pair of the two option lists)
  the recommendation of the code is the persona of the first matching row of the decision
  table: \<open>sage\<close> for \<open>13-17\<close> or \<open>18-25\<close> with \<open>Mental health\<close> or
  \<open>Academic stress\<close>, else \<open>nurture\<close> for \<open>Parent/Guardian\<close> with \<open>Parenting\<close> or
  \<open>Child development\<close>, else \<open>spark\<close> for \<open>Child development\<close>, else \<open>bridge\<close>;
  and the four pairs named by the specification give \<open>sage\<close>, \<open>nurture\<close>, \<open>spark\<close>
  and \<open>bridge\<close>.
\<close>

theorem recommendation_table:
  "first_match decision_table age_group concern = Some (rec_personality age_group concern mood)
   \<and> rec_personality ''13-17'' ''Mental health'' mood = ''sage''
   \<and> rec_personality ''Parent/Guardian'' ''Parenting'' mood = ''nurture''
   \<and> rec_personality ''Other'' ''Child development'' mood = ''spark''
   \<and> rec_personality ''Other'' ''Family communication'' mood = ''bridge''"
  by (simp add: decision_table_def rec_personality_def)

theorem recommendation_table_witness:
  "first_match decision_table ''18-25'' ''Child development'' = Some ''spark''"
  using recommendation_table [of "''18-25''" "''Child development''" 5]
  by (simp add: rec_personality_def)

lemma rec_personality_mood: "rec_personality a c m1 = rec_personality a c m2"
  by (simp only: rec_personality_def)

lemma quick_assessment_mood:
  "quick_assessment (GetRecommendation a c m1) w = quick_assessment (GetRecommendation a c m2) w"
  by (simp only: quick_assessment_def event.case rec_personality_mood [of a c m1 m2])


text \<open>
  C10. The recommendation does not depend on the mood slider: for a fixed age group and
  concern any two mood values (in particular any two in 1..10) give the same persona, and
  the whole run of the script for the Get Recommendation button ends in the same state.
\<close>

theorem mood_noninterference:
  "rec_personality age_group concern m1 = rec_personality age_group concern m2
   \<and> script tbl prov (GetRecommendation age_group concern m1) w
       = script tbl prov (GetRecommendation age_group concern m2) w"
  by (simp only: script_eq script_pass_GetRecommendation
      quick_assessment_mood [where ?m1.0 = m1 and ?m2.0 = m2]
      rec_personality_mood [where ?m1.0 = m1 and ?m2.0 = m2] simp_thms)

theorem mood_noninterference_witness:
  "rec_personality ''13-17'' ''Mental health'' 1 = rec_personality ''13-17'' ''Mental health'' 10
   \<and> script example_table (\<lambda>log. Inl ''unavailable'') (GetRecommendation ''13-17'' ''Mental health'' 1)
         initial_state
       = script example_table (\<lambda>log. Inl ''unavailable'') (GetRecommendation ''13-17'' ''Mental health'' 10)
         initial_state"
  by (rule mood_noninterference)

subsection \<open>What the chat interface leaves alone\<close>

lemma validate_api_key_eq:
  "validate_api_key prov api_key w =
     (case prov (calls w @ [GenerateContent (GenerativeModel api_key ''gemini-pro'') ''Hello'']) of
        Inr response \<Rightarrow> Inr (GenerativeModel api_key ''gemini-pro'')
      | Inl e \<Rightarrow> Inl e,
      w\<lparr>calls := calls w @ [GenerateContent (GenerativeModel api_key ''gemini-pro'') ''Hello'']\<rparr>)"
  by (simp add: validate_api_key_def Let_def split: sum.split)

lemma send_message_frame:
  "send_message prov cs text w = (r, w') \<Longrightarrow>
     gate w' = gate w \<and> messages w' = messages w \<and> personality w' = personality w
     \<and> calls w' = calls w @ [SendMessage cs text]"
  by (auto simp: send_message_def Let_def gate_def split: sum.splits)

lemma generate_ai_response_frame:
  "generate_ai_response prov cp user_prompt w = (r, w') \<Longrightarrow>
     gate w' = gate w \<and> messages w' = messages w \<and> personality w' = personality w"
  by (auto simp: generate_ai_response_def split: option.splits prod.splits sum.splits
      dest!: send_message_frame)

lemma chat_input_gate: "gate (world_of (chat_input tbl prov cp ev w)) = gate w"
proof (cases ev)
  case (ChatInput user_prompt)
  show ?thesis
  proof (cases "check_crisis_keywords tbl user_prompt")
    case True
    then show ?thesis by (simp add: ChatInput chat_input_def gate_def)
  next
    case False
    obtain r w' where g: "generate_ai_response prov cp user_prompt
        (w\<lparr>messages := messages w @ [\<lparr>msg_role = ''user'', content = user_prompt\<rparr>]\<rparr>) = (r, w')"
      by (cases "generate_ai_response prov cp user_prompt
        (w\<lparr>messages := messages w @ [\<lparr>msg_role = ''user'', content = user_prompt\<rparr>]\<rparr>)")
    from generate_ai_response_frame [OF g] have "gate w' = gate w"
      by (simp add: gate_def)
    then show ?thesis
      by (simp add: ChatInput chat_input_def False g gate_def)
  qed
qed (simp_all add: chat_input_def)

lemma greeting_synthesis_gate:
  "greeting_synthesis cp w = Inr w1 \<Longrightarrow> gate w1 = gate w"
  by (auto simp: greeting_synthesis_def initialize_chat_session_def gate_def
      split: if_splits option.splits sum.splits prod.splits)

lemma chat_interface_gate: "gate (world_of (chat_interface tbl prov ev w)) = gate w"
  by (simp add: chat_interface_def chat_input_gate greeting_synthesis_gate
      split: option.split sum.split)

lemma chat_interface_Rerender_ready:
  "PERSONALITIES (personality w) = Some p \<Longrightarrow> chat_session w = Some cs \<Longrightarrow>
   chat_interface tbl prov Rerender w = Continue w"
  by (simp add: chat_interface_def greeting_synthesis_def chat_input_def)

lemma chat_interface_Rerender_fresh:
  "PERSONALITIES (personality w) = Some p \<Longrightarrow> chat_session w = None \<Longrightarrow>
   model w = Some m \<Longrightarrow>
   chat_interface tbl prov Rerender w =
     Continue (w\<lparr>chat_session := Some (ChatSession m (seeded_history p)),
                 messages := messages w @ [\<lparr>msg_role = ''assistant'', content = greeting p\<rparr>]\<rparr>)"
  by (simp add: chat_interface_def greeting_synthesis_def initialize_chat_session_def
      chat_input_def)

subsection \<open>The provider handle and the validity of the credential\<close>

lemma handle_inv_gate: "gate w' = gate w \<Longrightarrow> handle_inv w' = handle_inv w"
  by (simp add: gate_def handle_inv_def)

lemma setup_panel_inv:
  "handle_inv w \<Longrightarrow> handle_inv (world_of (setup_panel prov ev w))"
  by (cases ev)
     (auto simp: setup_panel_def validate_api_key_eq handle_inv_def split: sum.splits)

lemma chat_interface_inv:
  "handle_inv w \<Longrightarrow> handle_inv (world_of (chat_interface tbl prov ev w))"
  using handle_inv_gate [OF chat_interface_gate] by simp

lemma personality_buttons_inv:
  "handle_inv w \<Longrightarrow>
   handle_inv (world_of (and_then (personality_buttons (PersonalityButton key) items w)
     (chat_interface tbl prov Rerender)))"
  by (cases "key = personality w")
     (simp_all add: personality_buttons_same personality_buttons_switch and_then_simps
        chat_interface_inv, simp add: handle_inv_def)

lemma quick_assessment_inv:
  "handle_inv w \<Longrightarrow>
   handle_inv (world_of (and_then (quick_assessment (GetRecommendation a c m) w)
     (chat_interface tbl prov Rerender)))"
  by (cases "rec_personality a c m = personality w")
     (simp_all add: quick_assessment_def and_then_simps chat_interface_inv,
      simp add: handle_inv_def)

lemma script_pass_inv:
  "handle_inv w \<Longrightarrow> handle_inv (world_of (script_pass tbl prov ev w))"
proof (cases ev)
  case Rerender
  then show "handle_inv w \<Longrightarrow> ?thesis"
    by (simp add: script_pass_Rerender chat_interface_inv)
next
  case (ValidateStart api_key)
  then show "handle_inv w \<Longrightarrow> ?thesis"
    by (simp add: script_pass_ValidateStart chat_interface_inv setup_panel_inv)
next
  case (PersonalityButton key)
  then show "handle_inv w \<Longrightarrow> ?thesis"
    by (simp add: script_pass_PersonalityButton personality_buttons_inv)
next
  case (GetRecommendation a c m)
  then show "handle_inv w \<Longrightarrow> ?thesis"
    by (simp add: script_pass_GetRecommendation quick_assessment_inv)
next
  case ClearChat
  then show "handle_inv w \<Longrightarrow> ?thesis"
    by (simp add: script_pass_ClearChat) (simp add: handle_inv_def)
next
  case ChangeApiKey
  then show "handle_inv w \<Longrightarrow> ?thesis"
    by (simp add: script_pass_ChangeApiKey) (simp add: handle_inv_def)
next
  case (ChatInput user_prompt)
  then show "handle_inv w \<Longrightarrow> ?thesis"
    by (simp add: script_pass_ChatInput chat_interface_inv)
qed

lemma script_inv:
  assumes "handle_inv w"
  shows "\<exists>f. script tbl prov ev w = Some f \<and> handle_inv (world_of f)"
proof (cases "script_pass tbl prov ev w")
  case (Rerun w')
  with script_pass_inv [OF assms, of tbl prov ev] have "handle_inv w'" by simp
  from script_pass_inv [OF this, of tbl prov Rerender] show ?thesis
    by (simp add: script_eq Rerun)
qed (use script_pass_inv [OF assms, of tbl prov ev] in \<open>simp_all add: script_eq\<close>)

lemma reachable_inv: "reachable tbl prov w \<Longrightarrow> handle_inv w"
proof (induction rule: reachable.induct)
  case reachable_init
  show ?case by (simp add: handle_inv_def initial_state_def)
next
  case (reachable_step w ev f)
  from script_inv [OF reachable_step.IH, of tbl prov ev] reachable_step.hyps(2)
  show ?case by simp
qed

text \<open>
  C8. The provider handle (\<open>model\<close>) is there only when the credential is valid
  (\<open>api_key_valid\<close>): this holds in the initial session state, every run of the script
  ends and keeps it, whatever the event (validation that succeeds or fails, persona
  switch, recommendation, clear chat, change of the key, a chat turn), and so it holds in
  every state a user can bring about.
\<close>

theorem handle_only_when_valid:
  "handle_inv initial_state
   \<and> (handle_inv w \<longrightarrow> (\<exists>f. script tbl prov ev w = Some f \<and> handle_inv (world_of f)))
   \<and> (reachable tbl prov w \<longrightarrow> handle_inv w)"
  using script_inv [of w tbl prov ev] reachable_inv [of tbl prov w]
  by (simp add: handle_inv_def initial_state_def)

theorem handle_only_when_valid_witness:
  "handle_inv initial_state
   \<and> reachable example_table (\<lambda>log. Inr ''Hi'') initial_state
   \<and> (\<exists>f. script example_table (\<lambda>log. Inr ''Hi'') (ValidateStart ''key'') initial_state = Some f
          \<and> handle_inv (world_of f))"
proof -
  note t = handle_only_when_valid [of initial_state example_table "\<lambda>log. Inr ''Hi''" "ValidateStart ''key''"]
  from t have a: "handle_inv initial_state"
    by (rule conjunct1)
  from t [THEN conjunct2, THEN conjunct1, THEN mp, OF a] a reachable_init
  show ?thesis by (simp only: simp_thms)
qed

subsection \<open>Selecting and switching the persona\<close>

text \<open>
  C9. Selecting the persona that is already active changes nothing: the button handler
  and the recommendation handler go on with the session state as it is, and in an
  unlocked session that has its chat object the whole run of the script ends with the
  state it started from, so the message log, the chat session and the active persona are
  as before and the log is not cleared.
\<close>

theorem same_persona_is_noop:
  "personality_buttons (PersonalityButton (personality w)) PERSONALITIES_items w = Continue w
   \<and> (rec_personality age_group concern mood = personality w \<longrightarrow>
        quick_assessment (GetRecommendation age_group concern mood) w = Continue w)
   \<and> (api_key_valid w \<longrightarrow> PERSONALITIES (personality w) = Some p \<longrightarrow>
        chat_session w = Some cs \<longrightarrow>
        script tbl prov (PersonalityButton (personality w)) w = Some (Continue w)
        \<and> (rec_personality age_group concern mood = personality w \<longrightarrow>
             script tbl prov (GetRecommendation age_group concern mood) w = Some (Continue w)))"
  by (simp add: personality_buttons_same quick_assessment_def script_eq
      script_pass_PersonalityButton script_pass_GetRecommendation and_then_simps
      chat_interface_Rerender_ready)

theorem same_persona_is_noop_witness:
  "script example_table (\<lambda>log. Inr ''Hi'') (PersonalityButton ''sage'')
      (initial_state\<lparr>api_key_valid := True, model := Some (GenerativeModel ''key'' ''gemini-pro''),
         chat_session := Some (ChatSession (GenerativeModel ''key'' ''gemini-pro'') [])\<rparr>)
    = Some (Continue
      (initial_state\<lparr>api_key_valid := True, model := Some (GenerativeModel ''key'' ''gemini-pro''),
         chat_session := Some (ChatSession (GenerativeModel ''key'' ''gemini-pro'') [])\<rparr>))
   \<and> script example_table (\<lambda>log. Inr ''Hi'') (GetRecommendation ''13-17'' ''Mental health'' 5)
      (initial_state\<lparr>api_key_valid := True, model := Some (GenerativeModel ''key'' ''gemini-pro''),
         chat_session := Some (ChatSession (GenerativeModel ''key'' ''gemini-pro'') [])\<rparr>)
    = Some (Continue
      (initial_state\<lparr>api_key_valid := True, model := Some (GenerativeModel ''key'' ''gemini-pro''),
         chat_session := Some (ChatSession (GenerativeModel ''key'' ''gemini-pro'') [])\<rparr>))"
  using same_persona_is_noop [of
      "initial_state\<lparr>api_key_valid := True, model := Some (GenerativeModel ''key'' ''gemini-pro''),
         chat_session := Some (ChatSession (GenerativeModel ''key'' ''gemini-pro'') [])\<rparr>"
      "''13-17''" "''Mental health''" 5 sage_info
      "ChatSession (GenerativeModel ''key'' ''gemini-pro'') []" example_table "\<lambda>log. Inr ''Hi''"]
  by (simp add: initial_state_def PERSONALITIES_def PERSONALITIES_items_def rec_personality_def)

lemma greeting_names_persona:
  "str_contains (name p) (greeting p)" "str_contains (role p) (greeting p)"
proof -
  have "greeting p = ''Hello! I'm '' @ name p @ '', your '' @ role p @ ''. How can I support you today?''"
    by (simp add: greeting_def)
  then show "str_contains (name p) (greeting p)"
    unfolding str_contains_iff by blast
  have "greeting p = (''Hello! I'm '' @ name p @ '', your '') @ role p @ ''. How can I support you today?''"
    by (simp add: greeting_def)
  then show "str_contains (role p) (greeting p)"
    unfolding str_contains_iff by blast
qed

text \<open>
  C6. A switch to another persona, by its button or by a recommendation, in an unlocked
  session: the handler empties the message log, drops the chat session and reruns; after
  the rerun the log holds exactly one message, the greeting of the new persona, and the
  chat session is a fresh one seeded for it. The greeting is \<open>Hello! I'm\<close>, the name
  of the new persona, \<open>your\<close>, its role, and \<open>How can I support you today?\<close>, so
  it names the persona and its role.
\<close>

theorem switch_restarts_with_greeting:
  assumes "api_key_valid w" and "model w = Some m"
    and "PERSONALITIES key = Some p" and "key \<noteq> personality w"
  shows "script_pass tbl prov (PersonalityButton key) w
           = Rerun (w\<lparr>personality := key, messages := [], chat_session := None\<rparr>)
     \<and> script tbl prov (PersonalityButton key) w
           = Some (Continue (w\<lparr>personality := key,
                messages := [\<lparr>msg_role = ''assistant'', content = greeting p\<rparr>],
                chat_session := Some (ChatSession m (seeded_history p))\<rparr>))
     \<and> (rec_personality age_group concern mood = key \<longrightarrow>
          script_pass tbl prov (GetRecommendation age_group concern mood) w
             = Rerun (w\<lparr>personality := key, messages := [], chat_session := None\<rparr>)
          \<and> script tbl prov (GetRecommendation age_group concern mood) w
             = Some (Continue (w\<lparr>personality := key,
                  messages := [\<lparr>msg_role = ''assistant'', content = greeting p\<rparr>],
                  chat_session := Some (ChatSession m (seeded_history p))\<rparr>)))
     \<and> greeting p
           = ''Hello! I'm '' @ name p @ '', your '' @ role p @ ''. How can I support you today?''
     \<and> str_contains (name p) (greeting p)
     \<and> str_contains (role p) (greeting p)"
proof -
  let ?cleared = "w\<lparr>personality := key, messages := [], chat_session := None\<rparr>"
  have button: "script_pass tbl prov (PersonalityButton key) w = Rerun ?cleared"
    using assms
    by (simp add: script_pass_PersonalityButton personality_buttons_switch and_then_simps
        PERSONALITIES_def [symmetric])
  have render: "script_pass tbl prov Rerender ?cleared
      = Continue (w\<lparr>personality := key,
                messages := [\<lparr>msg_role = ''assistant'', content = greeting p\<rparr>],
                chat_session := Some (ChatSession m (seeded_history p))\<rparr>)"
    using assms
    by (simp add: script_pass_Rerender chat_interface_Rerender_fresh [where p = p and m = m])
  have assess: "script_pass tbl prov (GetRecommendation age_group concern mood) w = Rerun ?cleared"
    if "rec_personality age_group concern mood = key"
    using assms that
    by (simp add: script_pass_GetRecommendation quick_assessment_def and_then_simps)
  have wording: "greeting p
      = ''Hello! I'm '' @ name p @ '', your '' @ role p @ ''. How can I support you today?''"
    by (simp add: greeting_def)
  show ?thesis
    using button render assess wording greeting_names_persona [of p] by (simp add: script_eq)
qed

theorem switch_restarts_with_greeting_witness:
  "script example_table (\<lambda>log. Inr ''Hi'') (PersonalityButton ''nurture'')
      (initial_state\<lparr>api_key_valid := True, model := Some (GenerativeModel ''key'' ''gemini-pro''),
         chat_session := Some (ChatSession (GenerativeModel ''key'' ''gemini-pro'') []),
         messages := [\<lparr>msg_role = ''user'', content = ''hello''\<rparr>]\<rparr>)
    = Some (Continue
      (initial_state\<lparr>api_key_valid := True, model := Some (GenerativeModel ''key'' ''gemini-pro''),
         personality := ''nurture'',
         messages := [\<lparr>msg_role = ''assistant'', content = greeting nurture_info\<rparr>],
         chat_session := Some (ChatSession (GenerativeModel ''key'' ''gemini-pro'')
           (seeded_history nurture_info))\<rparr>))
   \<and> greeting nurture_info
       = ''Hello! I'm '' @ [CHR 0xF0, CHR 0x9F, CHR 0xA4, CHR 0xB1]
         @ '' Nurture, your Parenting Guide. How can I support you today?''"
  using switch_restarts_with_greeting [of
      "initial_state\<lparr>api_key_valid := True, model := Some (GenerativeModel ''key'' ''gemini-pro''),
         chat_session := Some (ChatSession (GenerativeModel ''key'' ''gemini-pro'') []),
         messages := [\<lparr>msg_role = ''user'', content = ''hello''\<rparr>]\<rparr>"
      "GenerativeModel ''key'' ''gemini-pro''" "''nurture''" nurture_info
      example_table "\<lambda>log. Inr ''Hi''" "''Parent/Guardian''" "''Parenting''" 5]
  by (simp add: initial_state_def PERSONALITIES_def PERSONALITIES_items_def nurture_info_def)

subsection \<open>Credential validation\<close>

lemma greeting_synthesis_calls:
  "greeting_synthesis cp w = Inr w1 \<Longrightarrow> calls w1 = calls w"
  by (auto simp: greeting_synthesis_def initialize_chat_session_def
      split: if_splits option.splits sum.splits prod.splits)

lemma chat_interface_Rerender_calls:
  "calls (world_of (chat_interface tbl prov Rerender w)) = calls w"
  by (simp add: chat_interface_def chat_input_other greeting_synthesis_calls
      split: option.split sum.split)

lemma script_pass_Rerender_calls:
  "calls (world_of (script_pass tbl prov Rerender w)) = calls w"
  by (simp add: script_pass_Rerender chat_interface_Rerender_calls)

lemma script_pass_Rerender_gate:
  "gate (world_of (script_pass tbl prov Rerender w)) = gate w"
  by (simp add: script_pass_Rerender chat_interface_gate)

text \<open>
  C5. Validation makes exactly one call to the provider, the probe \<open>Hello\<close>, whatever
  the key looks like, and its result is the provider's answer alone: when the probe is
  answered the result is the model handle, when it raises the result is the text of the
  exception. In a locked session the Validate button with a key that was entered then
  either unlocks the session, storing the handle and setting \<open>api_key_valid\<close>, with
  that one call made, or leaves the session as it was apart from the logged call: locked,
  and with the handle it had.
\<close>

theorem credential_probe:
  "calls (snd (validate_api_key prov api_key w))
      = calls w @ [GenerateContent (GenerativeModel api_key ''gemini-pro'') ''Hello'']
   \<and> (prov (calls w @ [GenerateContent (GenerativeModel api_key ''gemini-pro'') ''Hello'']) = Inr t
        \<longrightarrow> fst (validate_api_key prov api_key w) = Inr (GenerativeModel api_key ''gemini-pro''))
   \<and> (prov (calls w @ [GenerateContent (GenerativeModel api_key ''gemini-pro'') ''Hello'']) = Inl e
        \<longrightarrow> fst (validate_api_key prov api_key w) = Inl e)
   \<and> (\<not> api_key_valid w \<longrightarrow> api_key \<noteq> [] \<longrightarrow>
        (prov (calls w @ [GenerateContent (GenerativeModel api_key ''gemini-pro'') ''Hello'']) = Inr t
          \<longrightarrow> (\<exists>f. script tbl prov (ValidateStart api_key) w = Some f
                \<and> api_key_valid (world_of f)
                \<and> model (world_of f) = Some (GenerativeModel api_key ''gemini-pro'')
                \<and> calls (world_of f)
                    = calls w @ [GenerateContent (GenerativeModel api_key ''gemini-pro'') ''Hello'']))
        \<and> (prov (calls w @ [GenerateContent (GenerativeModel api_key ''gemini-pro'') ''Hello'']) = Inl e
          \<longrightarrow> script tbl prov (ValidateStart api_key) w
                = Some (Stop (w\<lparr>calls := calls w
                    @ [GenerateContent (GenerativeModel api_key ''gemini-pro'') ''Hello'']\<rparr>))))"
proof -
  let ?m = "GenerativeModel api_key ''gemini-pro''"
  let ?log = "calls w @ [GenerateContent ?m ''Hello'']"
  have one: "calls (snd (validate_api_key prov api_key w)) = ?log"
    by (simp add: validate_api_key_eq)
  have ok: "fst (validate_api_key prov api_key w) = Inr ?m" if "prov ?log = Inr t"
    using that by (simp add: validate_api_key_eq)
  have bad: "fst (validate_api_key prov api_key w) = Inl e" if "prov ?log = Inl e"
    using that by (simp add: validate_api_key_eq)
  have unlock: "\<exists>f. script tbl prov (ValidateStart api_key) w = Some f
      \<and> api_key_valid (world_of f) \<and> model (world_of f) = Some ?m
      \<and> calls (world_of f) = ?log"
    if "\<not> api_key_valid w" "api_key \<noteq> []" "prov ?log = Inr t"
  proof -
    let ?w1 = "w\<lparr>calls := ?log, api_key_valid := True, model := Some ?m\<rparr>"
    have pass: "script_pass tbl prov (ValidateStart api_key) w = Rerun ?w1"
      using that by (simp add: script_pass_ValidateStart setup_panel_def validate_api_key_eq)
    have run: "script tbl prov (ValidateStart api_key) w = Some (script_pass tbl prov Rerender ?w1)"
      by (simp add: script_eq pass)
    have "gate (world_of (script_pass tbl prov Rerender ?w1)) = gate ?w1"
      by (rule script_pass_Rerender_gate)
    then have "api_key_valid (world_of (script_pass tbl prov Rerender ?w1))
        \<and> model (world_of (script_pass tbl prov Rerender ?w1)) = Some ?m"
      by (simp add: gate_def)
    moreover have "calls (world_of (script_pass tbl prov Rerender ?w1)) = ?log"
      by (simp add: script_pass_Rerender_calls)
    ultimately show ?thesis
      using run by simp
  qed
  have locked: "script tbl prov (ValidateStart api_key) w = Some (Stop (w\<lparr>calls := ?log\<rparr>))"
    if "\<not> api_key_valid w" "api_key \<noteq> []" "prov ?log = Inl e"
    using that
    by (simp add: script_eq script_pass_ValidateStart setup_panel_def validate_api_key_eq)
  from one ok bad unlock locked show ?thesis
    by blast
qed

theorem credential_probe_witness:
  "(\<exists>f. script example_table (\<lambda>log. Inr ''Hi'') (ValidateStart ''key'') initial_state = Some f
        \<and> api_key_valid (world_of f)
        \<and> model (world_of f) = Some (GenerativeModel ''key'' ''gemini-pro'')
        \<and> calls (world_of f) = [GenerateContent (GenerativeModel ''key'' ''gemini-pro'') ''Hello''])
   \<and> script example_table (\<lambda>log. Inl ''API key not valid'') (ValidateStart ''key'') initial_state
        = Some (Stop (initial_state\<lparr>calls :=
            [GenerateContent (GenerativeModel ''key'' ''gemini-pro'') ''Hello'']\<rparr>))"
  using credential_probe [of "\<lambda>log. Inr ''Hi''" "''key''" initial_state "''Hi''" "''no''"
      example_table]
    credential_probe [of "\<lambda>log. Inl ''API key not valid''" "''key''" initial_state "''Hi''"
      "''API key not valid''" example_table]
  by (simp add: initial_state_def)

subsection \<open>The chat turn\<close>

lemma check_crisis_keywords_Nil: "\<not> check_crisis_keywords tbl []"
  by (simp add: check_crisis_keywords_def crisis_keywords_def lower_def)

lemma chat_input_flagged:
  "check_crisis_keywords tbl user_prompt \<Longrightarrow>
   chat_input tbl prov cp (ChatInput user_prompt) w =
     Rerun (w\<lparr>messages := messages w
       @ [\<lparr>msg_role = ''user'', content = user_prompt\<rparr>,
          \<lparr>msg_role = ''assistant'', content = get_crisis_response\<rparr>]\<rparr>)"
  using check_crisis_keywords_Nil by (auto simp: chat_input_def)

lemma chat_interface_flagged_calls:
  "check_crisis_keywords tbl user_prompt \<Longrightarrow>
   calls (world_of (chat_interface tbl prov (ChatInput user_prompt) w)) = calls w"
  by (simp add: chat_interface_def chat_input_flagged greeting_synthesis_calls
      split: option.split sum.split)

lemma script_calls:
  assumes "calls (world_of (script_pass tbl prov ev w)) = calls w"
  shows "\<exists>f. script tbl prov ev w = Some f \<and> calls (world_of f) = calls w"
proof (cases "script_pass tbl prov ev w")
  case (Rerun w')
  with assms have "calls w' = calls w" by simp
  with script_pass_Rerender_calls [of tbl prov w'] show ?thesis
    by (simp add: script_eq Rerun)
qed (use assms in \<open>simp_all add: script_eq\<close>)

lemma chat_turn_flagged:
  assumes "api_key_valid w" "PERSONALITIES (personality w) = Some p" "chat_session w = Some cs"
    and "check_crisis_keywords tbl user_prompt"
  shows "script tbl prov (ChatInput user_prompt) w =
     Some (Continue (w\<lparr>messages := messages w
         @ [\<lparr>msg_role = ''user'', content = user_prompt\<rparr>,
            \<lparr>msg_role = ''assistant'', content = get_crisis_response\<rparr>]\<rparr>))"
proof -
  let ?w' = "w\<lparr>messages := messages w
         @ [\<lparr>msg_role = ''user'', content = user_prompt\<rparr>,
            \<lparr>msg_role = ''assistant'', content = get_crisis_response\<rparr>]\<rparr>"
  have pass: "script_pass tbl prov (ChatInput user_prompt) w = Rerun ?w'"
    using assms
    by (simp add: script_pass_ChatInput chat_interface_def greeting_synthesis_def
        chat_input_flagged)
  have "script_pass tbl prov Rerender ?w' = Continue ?w'"
    using assms
    by (simp add: script_pass_Rerender chat_interface_Rerender_ready [where p = p and cs = cs])
  with pass show ?thesis
    by (simp add: script_eq)
qed

lemma crisis_response_hotlines:
  "str_contains ''Please reach out immediately'' get_crisis_response"
  "str_contains ''Suicide Prevention**: 104 (24/7)'' get_crisis_response"
  "str_contains ''KIRAN Mental Health**: 1800-599-0019'' get_crisis_response"
  "str_contains ''Vandrevala Foundation**: 9999666555'' get_crisis_response"
  "str_contains ''iCall Psychosocial Helpline**: 9152987821'' get_crisis_response"
  by code_simp+

lemma kelvin_message_flagged:
  "check_crisis_keywords example_table ([CHR 0xE2, CHR 0x84, CHR 0xAA] @ ''ill myself'')"
  by code_simp

text \<open>
  C2. A user message that the crisis filter flags makes no call to the provider: the
  run of the script ends with the call log it started with, whatever the session state
  and the provider. In an unlocked session with its chat object the run appends the user
  message and then the message of \<open>get_crisis_response\<close> as the assistant turn, and
  changes nothing else. That message is the same for every user message and session, and
  it holds the call to reach out and the four helplines with their numbers.
\<close>

theorem crisis_turn_skips_provider:
  assumes "check_crisis_keywords tbl user_prompt"
  shows "(\<exists>f. script tbl prov (ChatInput user_prompt) w = Some f \<and> calls (world_of f) = calls w)
    \<and> (api_key_valid w \<longrightarrow> PERSONALITIES (personality w) = Some p \<longrightarrow>
         chat_session w = Some cs \<longrightarrow>
         script tbl prov (ChatInput user_prompt) w =
           Some (Continue (w\<lparr>messages := messages w
             @ [\<lparr>msg_role = ''user'', content = user_prompt\<rparr>,
                \<lparr>msg_role = ''assistant'', content = get_crisis_response\<rparr>]\<rparr>)))
    \<and> str_contains ''Please reach out immediately'' get_crisis_response
    \<and> str_contains ''Suicide Prevention**: 104 (24/7)'' get_crisis_response
    \<and> str_contains ''KIRAN Mental Health**: 1800-599-0019'' get_crisis_response
    \<and> str_contains ''Vandrevala Foundation**: 9999666555'' get_crisis_response
    \<and> str_contains ''iCall Psychosocial Helpline**: 9152987821'' get_crisis_response"
proof (intro conjI)
  have "calls (world_of (script_pass tbl prov (ChatInput user_prompt) w)) = calls w"
    using assms by (simp add: script_pass_ChatInput chat_interface_flagged_calls)
  then show "\<exists>f. script tbl prov (ChatInput user_prompt) w = Some f \<and> calls (world_of f) = calls w"
    by (rule script_calls)
  show "api_key_valid w \<longrightarrow> PERSONALITIES (personality w) = Some p \<longrightarrow>
         chat_session w = Some cs \<longrightarrow>
         script tbl prov (ChatInput user_prompt) w =
           Some (Continue (w\<lparr>messages := messages w
             @ [\<lparr>msg_role = ''user'', content = user_prompt\<rparr>,
                \<lparr>msg_role = ''assistant'', content = get_crisis_response\<rparr>]\<rparr>))"
    using chat_turn_flagged [where prov = prov and tbl = tbl and w = w and p = p and cs = cs,
        OF _ _ _ assms]
    by blast
qed (rule crisis_response_hotlines)+

theorem crisis_turn_skips_provider_witness:
  "script example_table (\<lambda>log. Inr ''Hi'')
      (ChatInput ([CHR 0xE2, CHR 0x84, CHR 0xAA] @ ''ill myself''))
      (initial_state\<lparr>api_key_valid := True, model := Some (GenerativeModel ''key'' ''gemini-pro''),
         chat_session := Some (ChatSession (GenerativeModel ''key'' ''gemini-pro'')
           (seeded_history sage_info))\<rparr>)
    = Some (Continue
      (initial_state\<lparr>api_key_valid := True, model := Some (GenerativeModel ''key'' ''gemini-pro''),
         chat_session := Some (ChatSession (GenerativeModel ''key'' ''gemini-pro'')
           (seeded_history sage_info)),
         messages := [\<lparr>msg_role = ''user'',
                        content = [CHR 0xE2, CHR 0x84, CHR 0xAA] @ ''ill myself''\<rparr>,
                      \<lparr>msg_role = ''assistant'', content = get_crisis_response\<rparr>]\<rparr>))
   \<and> str_contains ''KIRAN Mental Health**: 1800-599-0019'' get_crisis_response"
proof -
  from crisis_turn_skips_provider [OF kelvin_message_flagged, of "\<lambda>log. Inr ''Hi''"
      "initial_state\<lparr>api_key_valid := True, model := Some (GenerativeModel ''key'' ''gemini-pro''),
         chat_session := Some (ChatSession (GenerativeModel ''key'' ''gemini-pro'')
           (seeded_history sage_info))\<rparr>"
      sage_info "ChatSession (GenerativeModel ''key'' ''gemini-pro'') (seeded_history sage_info)"]
  show ?thesis
    by (simp add: initial_state_def PERSONALITIES_def PERSONALITIES_items_def)
qed

subsection \<open>A turn that reaches the provider\<close>

lemma occurs_before_iff:
  "occurs_before x y s \<longleftrightarrow> (\<exists>a b c. s = a @ x @ b @ y @ c)"
proof (induction s)
  case Nil
  show ?case by auto
next
  case (Cons d s)
  have here: "(prefix x (d # s) \<and> str_contains y (drop (length x) (d # s)))
      \<longleftrightarrow> (\<exists>b c. d # s = x @ b @ y @ c)"
  proof
    assume "prefix x (d # s) \<and> str_contains y (drop (length x) (d # s))"
    then obtain r where r: "d # s = x @ r"
      and "str_contains y (drop (length x) (d # s))"
      unfolding prefix_def by blast
    then have "str_contains y r" by simp
    then obtain b c where "r = b @ y @ c"
      unfolding str_contains_iff by blast
    with r show "\<exists>b c. d # s = x @ b @ y @ c" by blast
  next
    assume "\<exists>b c. d # s = x @ b @ y @ c"
    then obtain b c where eq: "d # s = x @ b @ y @ c" by blast
    have "str_contains y (b @ y @ c)"
      unfolding str_contains_iff by blast
    then show "prefix x (d # s) \<and> str_contains y (drop (length x) (d # s))"
      by (simp add: eq)
  qed
  have "(\<exists>a b c. d # s = a @ x @ b @ y @ c)
      \<longleftrightarrow> (\<exists>b c. d # s = x @ b @ y @ c) \<or> (\<exists>a b c. s = a @ x @ b @ y @ c)"
    (is "?L \<longleftrightarrow> ?H \<or> ?T")
  proof
    assume ?L
    then obtain a b c where eq: "d # s = a @ x @ b @ y @ c" by blast
    show "?H \<or> ?T"
    proof (cases a)
      case Nil
      with eq show ?thesis by auto
    next
      case (Cons a0 a')
      with eq have "s = a' @ x @ b @ y @ c" by simp
      then show ?thesis by blast
    qed
  next
    assume "?H \<or> ?T"
    then show ?L
    proof
      assume ?H
      then obtain b c where "d # s = [] @ x @ b @ y @ c" by auto
      then show ?L by blast
    next
      assume ?T
      then obtain a b c where "s = a @ x @ b @ y @ c" by blast
      then have "d # s = (d # a) @ x @ b @ y @ c" by simp
      then show ?L by blast
    qed
  qed
  with here Cons.IH show ?case by simp
qed

lemma chat_turn_raises:
  assumes "api_key_valid w" "PERSONALITIES (personality w) = Some p" "chat_session w = Some cs"
    and "\<not> check_crisis_keywords tbl user_prompt" "user_prompt \<noteq> []"
    and "prov (calls w @ [SendMessage cs (context_prompt p user_prompt)]) = Inl e"
  shows "script tbl prov (ChatInput user_prompt) w =
     Some (Continue (w\<lparr>messages := messages w
         @ [\<lparr>msg_role = ''user'', content = user_prompt\<rparr>,
            \<lparr>msg_role = ''assistant'', content = apology e\<rparr>],
       calls := calls w @ [SendMessage cs (context_prompt p user_prompt)]\<rparr>))"
proof -
  let ?w' = "w\<lparr>messages := messages w
         @ [\<lparr>msg_role = ''user'', content = user_prompt\<rparr>,
            \<lparr>msg_role = ''assistant'', content = apology e\<rparr>],
       calls := calls w @ [SendMessage cs (context_prompt p user_prompt)]\<rparr>"
  have pass: "script_pass tbl prov (ChatInput user_prompt) w = Rerun ?w'"
    using assms
    by (simp add: script_pass_ChatInput chat_interface_def greeting_synthesis_def
        chat_input_def generate_ai_response_def send_message_def)
  have "script_pass tbl prov Rerender ?w' = Continue ?w'"
    using assms
    by (simp add: script_pass_Rerender chat_interface_Rerender_ready [where p = p and cs = cs])
  with pass show ?thesis
    by (simp add: script_eq)
qed

lemma chat_turn_answered:
  assumes "api_key_valid w" "PERSONALITIES (personality w) = Some p" "chat_session w = Some cs"
    and "\<not> check_crisis_keywords tbl user_prompt" "user_prompt \<noteq> []"
    and "prov (calls w @ [SendMessage cs (context_prompt p user_prompt)]) = Inr reply"
  shows "script tbl prov (ChatInput user_prompt) w =
     Some (Continue (w\<lparr>messages := messages w
         @ [\<lparr>msg_role = ''user'', content = user_prompt\<rparr>,
            \<lparr>msg_role = ''assistant'', content = reply\<rparr>],
       calls := calls w @ [SendMessage cs (context_prompt p user_prompt)],
       chat_session := Some (ChatSession (chat_model cs)
         (history cs @ [(''user'', [context_prompt p user_prompt]), (''model'', [reply])]))\<rparr>))"
proof -
  let ?w' = "w\<lparr>messages := messages w
         @ [\<lparr>msg_role = ''user'', content = user_prompt\<rparr>,
            \<lparr>msg_role = ''assistant'', content = reply\<rparr>],
       calls := calls w @ [SendMessage cs (context_prompt p user_prompt)],
       chat_session := Some (ChatSession (chat_model cs)
         (history cs @ [(''user'', [context_prompt p user_prompt]), (''model'', [reply])]))\<rparr>"
  have pass: "script_pass tbl prov (ChatInput user_prompt) w = Rerun ?w'"
    using assms
    by (simp add: script_pass_ChatInput chat_interface_def greeting_synthesis_def
        chat_input_def generate_ai_response_def send_message_def)
  have "script_pass tbl prov Rerender ?w' = Continue ?w'"
    using assms
    by (simp add: script_pass_Rerender chat_interface_Rerender_ready [where p = p])
  with pass show ?thesis
    by (simp add: script_eq)
qed

lemma apology_marker: "str_contains ''apologize'' (apology e)"
proof -
  have "apology e = ''I '' @ ''apologize'' @ '', but I encountered an error: '' @ e
      @ ''. Please try again.''"
    by (simp add: apology_def)
  then show ?thesis
    unfolding str_contains_iff by blast
qed

lemma exam_question_not_flagged: "\<not> check_crisis_keywords example_table ''How do I handle exam stress?''"
  by code_simp

lemma sage_prompt_not_before:
  "\<not> occurs_before (prompt sage_info) ''How do I handle exam stress?''
        (context_prompt sage_info ''How do I handle exam stress?'')"
  by code_simp

lemma thanks_not_flagged: "\<not> check_crisis_keywords example_table ''Thank you''"
  by code_simp

lemma sage_lookup: "PERSONALITIES ''sage'' = Some sage_info"
  by (simp add: PERSONALITIES_def PERSONALITIES_items_def)

text \<open>
  C4. In an unlocked session with its chat object, a message that is not flagged and
  whose call to the provider raises: the run of the script ends normally; the message log
  gains the user message, unmodified, and then exactly one assistant message, the apology
  built from the text of the exception, which contains the marker \<open>apologize\<close>; the
  call is logged and nothing else changes. The session stays usable: a following message
  whose call the provider answers gets that answer as its assistant message.
\<close>

theorem provider_error_becomes_apology:
  assumes "api_key_valid w" "PERSONALITIES (personality w) = Some p" "chat_session w = Some cs"
    and "\<not> check_crisis_keywords tbl user_prompt" "user_prompt \<noteq> []"
    and "prov (calls w @ [SendMessage cs (context_prompt p user_prompt)]) = Inl e"
    and "w' = w\<lparr>messages := messages w
         @ [\<lparr>msg_role = ''user'', content = user_prompt\<rparr>,
            \<lparr>msg_role = ''assistant'', content = apology e\<rparr>],
       calls := calls w @ [SendMessage cs (context_prompt p user_prompt)]\<rparr>"
  shows "script tbl prov (ChatInput user_prompt) w = Some (Continue w')
    \<and> str_contains ''apologize'' (apology e)
    \<and> (\<not> check_crisis_keywords tbl next_prompt \<longrightarrow> next_prompt \<noteq> [] \<longrightarrow>
        prov (calls w' @ [SendMessage cs (context_prompt p next_prompt)]) = Inr reply \<longrightarrow>
        script tbl prov (ChatInput next_prompt) w' =
          Some (Continue (w'\<lparr>messages := messages w'
              @ [\<lparr>msg_role = ''user'', content = next_prompt\<rparr>,
                 \<lparr>msg_role = ''assistant'', content = reply\<rparr>],
            calls := calls w' @ [SendMessage cs (context_prompt p next_prompt)],
            chat_session := Some (ChatSession (chat_model cs)
              (history cs @ [(''user'', [context_prompt p next_prompt]),
                             (''model'', [reply])]))\<rparr>)))"
proof (intro conjI impI)
  show "script tbl prov (ChatInput user_prompt) w = Some (Continue w')"
    unfolding assms(7) by (rule chat_turn_raises [where prov = prov, OF assms(1-6)])
  show "str_contains ''apologize'' (apology e)"
    by (rule apology_marker)
  assume next_turn: "\<not> check_crisis_keywords tbl next_prompt" "next_prompt \<noteq> []"
    "prov (calls w' @ [SendMessage cs (context_prompt p next_prompt)]) = Inr reply"
  have ready: "api_key_valid w'" "PERSONALITIES (personality w') = Some p"
    "chat_session w' = Some cs"
    using assms(1-3) by (simp_all add: assms(7))
  show "script tbl prov (ChatInput next_prompt) w' =
          Some (Continue (w'\<lparr>messages := messages w'
              @ [\<lparr>msg_role = ''user'', content = next_prompt\<rparr>,
                 \<lparr>msg_role = ''assistant'', content = reply\<rparr>],
            calls := calls w' @ [SendMessage cs (context_prompt p next_prompt)],
            chat_session := Some (ChatSession (chat_model cs)
              (history cs @ [(''user'', [context_prompt p next_prompt]),
                             (''model'', [reply])]))\<rparr>))"
    by (rule chat_turn_answered [where prov = prov, OF ready next_turn])
qed

theorem provider_error_becomes_apology_witness:
  "script example_table (\<lambda>log. if length log = 1 then Inl ''503 Service Unavailable'' else Inr ''Take a short break.'') (ChatInput ''How do I handle exam stress?'') (initial_state\<lparr>api_key_valid := True,
        model := Some (GenerativeModel ''key'' ''gemini-pro''),
        chat_session := Some (ChatSession (GenerativeModel ''key'' ''gemini-pro'')
          (seeded_history sage_info))\<rparr>) = Some (Continue ((initial_state\<lparr>api_key_valid := True,
        model := Some (GenerativeModel ''key'' ''gemini-pro''),
        chat_session := Some (ChatSession (GenerativeModel ''key'' ''gemini-pro'')
          (seeded_history sage_info))\<rparr>)\<lparr>messages := messages (initial_state\<lparr>api_key_valid := True,
        model := Some (GenerativeModel ''key'' ''gemini-pro''),
        chat_session := Some (ChatSession (GenerativeModel ''key'' ''gemini-pro'')
          (seeded_history sage_info))\<rparr>)
        @ [\<lparr>msg_role = ''user'', content = ''How do I handle exam stress?''\<rparr>,
           \<lparr>msg_role = ''assistant'', content = apology ''503 Service Unavailable''\<rparr>],
      calls := calls (initial_state\<lparr>api_key_valid := True,
        model := Some (GenerativeModel ''key'' ''gemini-pro''),
        chat_session := Some (ChatSession (GenerativeModel ''key'' ''gemini-pro'')
          (seeded_history sage_info))\<rparr>) @ [SendMessage (ChatSession (GenerativeModel ''key'' ''gemini-pro'') (seeded_history sage_info)) (context_prompt sage_info ''How do I handle exam stress?'')]\<rparr>))
   \<and> str_contains ''apologize'' (apology ''503 Service Unavailable'')
   \<and> script example_table (\<lambda>log. if length log = 1 then Inl ''503 Service Unavailable'' else Inr ''Take a short break.'') (ChatInput ''Thank you'') ((initial_state\<lparr>api_key_valid := True,
        model := Some (GenerativeModel ''key'' ''gemini-pro''),
        chat_session := Some (ChatSession (GenerativeModel ''key'' ''gemini-pro'')
          (seeded_history sage_info))\<rparr>)\<lparr>messages := messages (initial_state\<lparr>api_key_valid := True,
        model := Some (GenerativeModel ''key'' ''gemini-pro''),
        chat_session := Some (ChatSession (GenerativeModel ''key'' ''gemini-pro'')
          (seeded_history sage_info))\<rparr>)
        @ [\<lparr>msg_role = ''user'', content = ''How do I handle exam stress?''\<rparr>,
           \<lparr>msg_role = ''assistant'', content = apology ''503 Service Unavailable''\<rparr>],
      calls := calls (initial_state\<lparr>api_key_valid := True,
        model := Some (GenerativeModel ''key'' ''gemini-pro''),
        chat_session := Some (ChatSession (GenerativeModel ''key'' ''gemini-pro'')
          (seeded_history sage_info))\<rparr>) @ [SendMessage (ChatSession (GenerativeModel ''key'' ''gemini-pro'') (seeded_history sage_info)) (context_prompt sage_info ''How do I handle exam stress?'')]\<rparr>) =
       Some (Continue (((initial_state\<lparr>api_key_valid := True,
        model := Some (GenerativeModel ''key'' ''gemini-pro''),
        chat_session := Some (ChatSession (GenerativeModel ''key'' ''gemini-pro'')
          (seeded_history sage_info))\<rparr>)\<lparr>messages := messages (initial_state\<lparr>api_key_valid := True,
        model := Some (GenerativeModel ''key'' ''gemini-pro''),
        chat_session := Some (ChatSession (GenerativeModel ''key'' ''gemini-pro'')
          (seeded_history sage_info))\<rparr>)
        @ [\<lparr>msg_role = ''user'', content = ''How do I handle exam stress?''\<rparr>,
           \<lparr>msg_role = ''assistant'', content = apology ''503 Service Unavailable''\<rparr>],
      calls := calls (initial_state\<lparr>api_key_valid := True,
        model := Some (GenerativeModel ''key'' ''gemini-pro''),
        chat_session := Some (ChatSession (GenerativeModel ''key'' ''gemini-pro'')
          (seeded_history sage_info))\<rparr>) @ [SendMessage (ChatSession (GenerativeModel ''key'' ''gemini-pro'') (seeded_history sage_info)) (context_prompt sage_info ''How do I handle exam stress?'')]\<rparr>)\<lparr>messages := messages ((initial_state\<lparr>api_key_valid := True,
        model := Some (GenerativeModel ''key'' ''gemini-pro''),
        chat_session := Some (ChatSession (GenerativeModel ''key'' ''gemini-pro'')
          (seeded_history sage_info))\<rparr>)\<lparr>messages := messages (initial_state\<lparr>api_key_valid := True,
        model := Some (GenerativeModel ''key'' ''gemini-pro''),
        chat_session := Some (ChatSession (GenerativeModel ''key'' ''gemini-pro'')
          (seeded_history sage_info))\<rparr>)
        @ [\<lparr>msg_role = ''user'', content = ''How do I handle exam stress?''\<rparr>,
           \<lparr>msg_role = ''assistant'', content = apology ''503 Service Unavailable''\<rparr>],
      calls := calls (initial_state\<lparr>api_key_valid := True,
        model := Some (GenerativeModel ''key'' ''gemini-pro''),
        chat_session := Some (ChatSession (GenerativeModel ''key'' ''gemini-pro'')
          (seeded_history sage_info))\<rparr>) @ [SendMessage (ChatSession (GenerativeModel ''key'' ''gemini-pro'') (seeded_history sage_info)) (context_prompt sage_info ''How do I handle exam stress?'')]\<rparr>)
           @ [\<lparr>msg_role = ''user'', content = ''Thank you''\<rparr>,
              \<lparr>msg_role = ''assistant'', content = ''Take a short break.''\<rparr>],
         calls := calls ((initial_state\<lparr>api_key_valid := True,
        model := Some (GenerativeModel ''key'' ''gemini-pro''),
        chat_session := Some (ChatSession (GenerativeModel ''key'' ''gemini-pro'')
          (seeded_history sage_info))\<rparr>)\<lparr>messages := messages (initial_state\<lparr>api_key_valid := True,
        model := Some (GenerativeModel ''key'' ''gemini-pro''),
        chat_session := Some (ChatSession (GenerativeModel ''key'' ''gemini-pro'')
          (seeded_history sage_info))\<rparr>)
        @ [\<lparr>msg_role = ''user'', content = ''How do I handle exam stress?''\<rparr>,
           \<lparr>msg_role = ''assistant'', content = apology ''503 Service Unavailable''\<rparr>],
      calls := calls (initial_state\<lparr>api_key_valid := True,
        model := Some (GenerativeModel ''key'' ''gemini-pro''),
        chat_session := Some (ChatSession (GenerativeModel ''key'' ''gemini-pro'')
          (seeded_history sage_info))\<rparr>) @ [SendMessage (ChatSession (GenerativeModel ''key'' ''gemini-pro'') (seeded_history sage_info)) (context_prompt sage_info ''How do I handle exam stress?'')]\<rparr>) @ [SendMessage (ChatSession (GenerativeModel ''key'' ''gemini-pro'') (seeded_history sage_info)) (context_prompt sage_info ''Thank you'')],
         chat_session := Some (ChatSession (chat_model (ChatSession (GenerativeModel ''key'' ''gemini-pro'') (seeded_history sage_info)))
           (history (ChatSession (GenerativeModel ''key'' ''gemini-pro'') (seeded_history sage_info)) @ [(''user'', [context_prompt sage_info ''Thank you'']),
                          (''model'', [''Take a short break.''])]))\<rparr>))"
proof -
  have ready: "api_key_valid (initial_state\<lparr>api_key_valid := True,
        model := Some (GenerativeModel ''key'' ''gemini-pro''),
        chat_session := Some (ChatSession (GenerativeModel ''key'' ''gemini-pro'')
          (seeded_history sage_info))\<rparr>)" "PERSONALITIES (personality (initial_state\<lparr>api_key_valid := True,
        model := Some (GenerativeModel ''key'' ''gemini-pro''),
        chat_session := Some (ChatSession (GenerativeModel ''key'' ''gemini-pro'')
          (seeded_history sage_info))\<rparr>)) = Some sage_info"
    "chat_session (initial_state\<lparr>api_key_valid := True,
        model := Some (GenerativeModel ''key'' ''gemini-pro''),
        chat_session := Some (ChatSession (GenerativeModel ''key'' ''gemini-pro'')
          (seeded_history sage_info))\<rparr>) = Some (ChatSession (GenerativeModel ''key'' ''gemini-pro'') (seeded_history sage_info))"
    by (simp_all add: initial_state_def sage_lookup)
  have fails: "(\<lambda>log. if length log = 1 then Inl ''503 Service Unavailable'' else Inr ''Take a short break.'') (calls (initial_state\<lparr>api_key_valid := True,
        model := Some (GenerativeModel ''key'' ''gemini-pro''),
        chat_session := Some (ChatSession (GenerativeModel ''key'' ''gemini-pro'')
          (seeded_history sage_info))\<rparr>) @ [SendMessage (ChatSession (GenerativeModel ''key'' ''gemini-pro'') (seeded_history sage_info)) (context_prompt sage_info ''How do I handle exam stress?'')]) = Inl ''503 Service Unavailable''"
    by (simp add: initial_state_def)
  have answered: "(\<lambda>log. if length log = 1 then Inl ''503 Service Unavailable'' else Inr ''Take a short break.'') (calls ((initial_state\<lparr>api_key_valid := True,
        model := Some (GenerativeModel ''key'' ''gemini-pro''),
        chat_session := Some (ChatSession (GenerativeModel ''key'' ''gemini-pro'')
          (seeded_history sage_info))\<rparr>)\<lparr>messages := messages (initial_state\<lparr>api_key_valid := True,
        model := Some (GenerativeModel ''key'' ''gemini-pro''),
        chat_session := Some (ChatSession (GenerativeModel ''key'' ''gemini-pro'')
          (seeded_history sage_info))\<rparr>)
        @ [\<lparr>msg_role = ''user'', content = ''How do I handle exam stress?''\<rparr>,
           \<lparr>msg_role = ''assistant'', content = apology ''503 Service Unavailable''\<rparr>],
      calls := calls (initial_state\<lparr>api_key_valid := True,
        model := Some (GenerativeModel ''key'' ''gemini-pro''),
        chat_session := Some (ChatSession (GenerativeModel ''key'' ''gemini-pro'')
          (seeded_history sage_info))\<rparr>) @ [SendMessage (ChatSession (GenerativeModel ''key'' ''gemini-pro'') (seeded_history sage_info)) (context_prompt sage_info ''How do I handle exam stress?'')]\<rparr>) @ [SendMessage (ChatSession (GenerativeModel ''key'' ''gemini-pro'') (seeded_history sage_info)) (context_prompt sage_info ''Thank you'')])
      = Inr ''Take a short break.''"
    by (simp add: initial_state_def)
  have nonempty: "''How do I handle exam stress?'' \<noteq> []" "''Thank you'' \<noteq> []"
    by simp_all
  note t = provider_error_becomes_apology [where prov = "(\<lambda>log. if length log = 1 then Inl ''503 Service Unavailable'' else Inr ''Take a short break.'')" and next_prompt = "''Thank you''"
      and reply = "''Take a short break.''",
      OF ready exam_question_not_flagged nonempty(1) fails refl]
  from t thanks_not_flagged nonempty(2) answered show ?thesis
    by (simp only: simp_thms not_False_eq_True)
qed

subsection \<open>The history of the chat object\<close>

lemma exchange_turns_append:
  "exchange_turns (xs @ ys) = exchange_turns xs @ exchange_turns ys"
  by (induction xs) auto

lemma sends_iff: "sends text c \<longleftrightarrow> (\<exists>cs. c = SendMessage cs text)"
  by (cases c) auto

lemma answered_in_iff:
  "answered_in prov log x \<longleftrightarrow>
     (\<exists>n cs. n < length log \<and> log ! n = SendMessage cs (fst x)
        \<and> prov (take (Suc n) log) = Inr (snd x))"
  by (auto simp: answered_in_def list_ex_iff sends_iff)

lemma answered_in_mono:
  assumes "answered_in prov log x"
  shows "answered_in prov (log @ ext) x"
proof -
  from assms obtain n cs where n: "n < length log" "log ! n = SendMessage cs (fst x)"
    "prov (take (Suc n) log) = Inr (snd x)"
    unfolding answered_in_iff by blast
  then have "n < length (log @ ext)" "(log @ ext) ! n = SendMessage cs (fst x)"
    "prov (take (Suc n) (log @ ext)) = Inr (snd x)"
    by (simp_all add: nth_append)
  then show ?thesis
    unfolding answered_in_iff by blast
qed

lemma answered_in_last:
  "prov (log @ [SendMessage cs sent]) = Inr answer \<Longrightarrow>
   answered_in prov (log @ [SendMessage cs sent]) (sent, answer)"
  unfolding answered_in_iff
  by (rule exI [of _ "length log"]) auto

lemma history_inv_frame:
  assumes "history_inv prov w p" and "chat_session w' = chat_session w"
    and "calls w' = calls w @ ext"
  shows "history_inv prov w' p"
  unfolding history_inv_def
proof (intro allI impI)
  fix cs
  assume "chat_session w' = Some cs"
  with assms(2) have "chat_session w = Some cs"
    by simp
  with assms(1) obtain xs where xs: "history cs = seeded_history p @ exchange_turns xs"
    "list_all (answered_in prov (calls w)) xs"
    unfolding history_inv_def by blast
  from xs(2) have "list_all (answered_in prov (calls w')) xs"
    by (auto simp: list_all_iff assms(3) intro: answered_in_mono)
  with xs(1) show "\<exists>xs. history cs = seeded_history p @ exchange_turns xs
      \<and> list_all (answered_in prov (calls w')) xs"
    by blast
qed

lemma history_inv_seed:
  "chat_session w' = Some (ChatSession m (seeded_history p)) \<Longrightarrow> history_inv prov w' p"
  unfolding history_inv_def
  by (auto intro: exI [of _ "[]"])

lemma history_inv_none: "chat_session w' = None \<Longrightarrow> history_inv prov w' p"
  by (simp add: history_inv_def)

lemma rec_personality_known: "PERSONALITIES (rec_personality a c m) \<noteq> None"
  by (simp add: rec_personality_def PERSONALITIES_def PERSONALITIES_items_def)

lemma rerender_inv:
  assumes "rerun_inv prov w"
  shows "session_inv prov (world_of (script_pass tbl prov Rerender w))"
proof -
  from assms obtain p where p: "PERSONALITIES (personality w) = Some p"
    and m: "api_key_valid w \<longrightarrow> model w \<noteq> None" and h: "history_inv prov w p"
    unfolding rerun_inv_def by blast
  show ?thesis
  proof (cases "api_key_valid w")
    case False
    with assms show ?thesis
      by (simp add: script_pass_Rerender session_inv_def)
  next
    case True
    with m obtain g where g: "model w = Some g" by auto
    show ?thesis
    proof (cases "chat_session w")
      case None
      from chat_interface_Rerender_fresh [OF p None g, of tbl prov] True p g
      show ?thesis
        by (simp add: script_pass_Rerender session_inv_def rerun_inv_def history_inv_seed)
    next
      case (Some cs)
      from chat_interface_Rerender_ready [OF p Some, of tbl prov] True assms Some
      show ?thesis
        by (simp add: script_pass_Rerender session_inv_def)
    qed
  qed
qed

lemma pass_ok_session: "session_inv prov (world_of f) \<Longrightarrow> pass_ok prov f"
  by (simp add: pass_ok_def session_inv_def)

lemma pass_ok_rerun: "rerun_inv prov w' \<Longrightarrow> pass_ok prov (Rerun w')"
  by (simp add: pass_ok_def)

lemma pass_ok_Rerender:
  "session_inv prov w \<Longrightarrow> pass_ok prov (script_pass tbl prov Rerender w)"
  by (rule pass_ok_session, rule rerender_inv) (simp add: session_inv_def)

lemma pass_ok_chat_interface_Rerender:
  "session_inv prov w \<Longrightarrow> api_key_valid w \<Longrightarrow> pass_ok prov (chat_interface tbl prov Rerender w)"
  using pass_ok_Rerender [of prov w tbl] by (simp add: script_pass_Rerender)

lemma rerun_inv_frame:
  assumes "rerun_inv prov w" and "personality w' = personality w"
    and "chat_session w' = chat_session w" and "calls w' = calls w @ ext"
    and "api_key_valid w' \<longrightarrow> model w' \<noteq> None"
  shows "rerun_inv prov w'"
proof -
  from assms(1) obtain p where p: "PERSONALITIES (personality w) = Some p"
    and h: "history_inv prov w p"
    unfolding rerun_inv_def by blast
  from history_inv_frame [OF h assms(3,4)] p assms(2,5) show ?thesis
    unfolding rerun_inv_def by auto
qed

lemma rerun_inv_cleared:
  assumes "PERSONALITIES (personality w') = Some p" and "chat_session w' = None"
    and "api_key_valid w' \<longrightarrow> model w' \<noteq> None"
  shows "rerun_inv prov w'"
  using assms unfolding rerun_inv_def by (auto intro: history_inv_none)

lemma pass_ok_ValidateStart:
  assumes "session_inv prov w"
  shows "pass_ok prov (script_pass tbl prov (ValidateStart api_key) w)"
proof (cases "api_key_valid w")
  case True
  with pass_ok_chat_interface_Rerender [OF assms True, of tbl] show ?thesis
    by (simp add: script_pass_ValidateStart)
next
  case False
  from assms have r: "rerun_inv prov w"
    by (simp add: session_inv_def)
  let ?m = "GenerativeModel api_key ''gemini-pro''"
  let ?log = "calls w @ [GenerateContent ?m ''Hello'']"
  show ?thesis
  proof (cases "api_key = []")
    case True
    with False assms show ?thesis
      by (simp add: script_pass_ValidateStart setup_panel_def pass_ok_session)
  next
    case key: False
    show ?thesis
    proof (cases "prov ?log")
      case (Inl e)
      have "rerun_inv prov (w\<lparr>calls := ?log\<rparr>)"
        by (rule rerun_inv_frame [OF r, where ext = "[GenerateContent ?m ''Hello'']"])
          (use False in simp_all)
      then have "session_inv prov (w\<lparr>calls := ?log\<rparr>)"
        using False by (simp add: session_inv_def)
      then show ?thesis
        using False key Inl
        by (simp add: script_pass_ValidateStart setup_panel_def validate_api_key_eq
            pass_ok_session)
    next
      case (Inr t)
      have "rerun_inv prov (w\<lparr>calls := ?log, api_key_valid := True, model := Some ?m\<rparr>)"
        by (rule rerun_inv_frame [OF r, where ext = "[GenerateContent ?m ''Hello'']"])
          simp_all
      then show ?thesis
        using False key Inr
        by (simp add: script_pass_ValidateStart setup_panel_def validate_api_key_eq
            pass_ok_rerun)
    qed
  qed
qed

lemma pass_ok_switch:
  assumes "session_inv prov w" and "api_key_valid w" and "PERSONALITIES key = Some p'"
  shows "pass_ok prov (Rerun (w\<lparr>personality := key, messages := [], chat_session := None\<rparr>))"
proof -
  from assms(1,2) have "model w \<noteq> None"
    by (auto simp: session_inv_def rerun_inv_def)
  then show ?thesis
    using assms(3)
    by (intro pass_ok_rerun rerun_inv_cleared [where p = p']) simp_all
qed

lemma pass_ok_PersonalityButton:
  assumes "session_inv prov w"
  shows "pass_ok prov (script_pass tbl prov (PersonalityButton key) w)"
proof (cases "api_key_valid w")
  case False
  with assms show ?thesis
    by (simp add: script_pass_PersonalityButton pass_ok_session)
next
  case True
  note keep = pass_ok_chat_interface_Rerender [OF assms True, of tbl]
  show ?thesis
  proof (cases "key = personality w")
    case same: True
    with keep True show ?thesis
      by (simp add: script_pass_PersonalityButton personality_buttons_same and_then_simps)
  next
    case other: False
    show ?thesis
    proof (cases "PERSONALITIES key")
      case None
      with keep True other show ?thesis
        by (simp add: script_pass_PersonalityButton personality_buttons_switch and_then_simps
            PERSONALITIES_def)
    next
      case (Some p')
      with pass_ok_switch [OF assms True Some] True other show ?thesis
        by (simp add: script_pass_PersonalityButton personality_buttons_switch and_then_simps
            PERSONALITIES_def)
    qed
  qed
qed

lemma pass_ok_GetRecommendation:
  assumes "session_inv prov w"
  shows "pass_ok prov (script_pass tbl prov (GetRecommendation a c m) w)"
proof (cases "api_key_valid w")
  case False
  with assms show ?thesis
    by (simp add: script_pass_GetRecommendation pass_ok_session)
next
  case True
  note keep = pass_ok_chat_interface_Rerender [OF assms True, of tbl]
  show ?thesis
  proof (cases "rec_personality a c m = personality w")
    case same: True
    with keep True show ?thesis
      by (simp add: script_pass_GetRecommendation quick_assessment_def and_then_simps)
  next
    case other: False
    from rec_personality_known [of a c m] obtain p'
      where "PERSONALITIES (rec_personality a c m) = Some p'" by auto
    from pass_ok_switch [OF assms True this] True other show ?thesis
      by (simp add: script_pass_GetRecommendation quick_assessment_def and_then_simps)
  qed
qed

lemma pass_ok_ClearChat:
  assumes "session_inv prov w"
  shows "pass_ok prov (script_pass tbl prov ClearChat w)"
proof (cases "api_key_valid w")
  case False
  with assms show ?thesis
    by (simp add: script_pass_ClearChat pass_ok_session)
next
  case True
  from assms True obtain p where "PERSONALITIES (personality w) = Some p" "model w \<noteq> None"
    by (auto simp: session_inv_def rerun_inv_def)
  then have "rerun_inv prov (w\<lparr>messages := [], chat_session := None\<rparr>)"
    by (intro rerun_inv_cleared [where p = p]) simp_all
  with True show ?thesis
    by (simp add: script_pass_ClearChat pass_ok_rerun)
qed

lemma pass_ok_ChangeApiKey:
  assumes "session_inv prov w"
  shows "pass_ok prov (script_pass tbl prov ChangeApiKey w)"
proof (cases "api_key_valid w")
  case False
  with assms show ?thesis
    by (simp add: script_pass_ChangeApiKey pass_ok_session)
next
  case True
  from assms obtain p where "PERSONALITIES (personality w) = Some p"
    by (auto simp: session_inv_def rerun_inv_def)
  then have "rerun_inv prov (w\<lparr>api_key_valid := False, model := None, messages := [],
      chat_session := None\<rparr>)"
    by (intro rerun_inv_cleared [where p = p]) simp_all
  with True show ?thesis
    by (simp add: script_pass_ChangeApiKey pass_ok_rerun)
qed

lemma history_inv_answer:
  assumes h: "history_inv prov w p" and cs: "chat_session w = Some cs"
    and ans: "prov (calls w @ [SendMessage cs text]) = Inr reply"
    and w': "chat_session w' = Some (ChatSession (chat_model cs)
        (history cs @ [(''user'', [text]), (''model'', [reply])]))"
      "calls w' = calls w @ [SendMessage cs text]"
  shows "history_inv prov w' p"
proof -
  from h cs obtain xs where xs: "history cs = seeded_history p @ exchange_turns xs"
    and all: "list_all (answered_in prov (calls w)) xs"
    unfolding history_inv_def by blast
  let ?log = "calls w @ [SendMessage cs text]"
  have old: "list_all (answered_in prov ?log) xs"
    using all answered_in_mono [of prov "calls w" _ "[SendMessage cs text]"]
    by (auto simp: list_all_iff)
  have new: "answered_in prov ?log (text, reply)"
    using ans by (rule answered_in_last)
  have "history cs @ [(''user'', [text]), (''model'', [reply])]
      = seeded_history p @ exchange_turns (xs @ [(text, reply)])"
    by (simp add: xs exchange_turns_append)
  moreover have "list_all (answered_in prov ?log) (xs @ [(text, reply)])"
    using old new by simp
  ultimately show ?thesis
    unfolding history_inv_def w' by auto
qed

lemma pass_ok_ChatInput:
  assumes "session_inv prov w"
  shows "pass_ok prov (script_pass tbl prov (ChatInput user_prompt) w)"
proof (cases "api_key_valid w")
  case False
  with assms show ?thesis
    by (simp add: script_pass_ChatInput pass_ok_session)
next
  case True
  from assms True obtain p cs where p: "PERSONALITIES (personality w) = Some p"
    and cs: "chat_session w = Some cs" and m: "model w \<noteq> None"
    and h: "history_inv prov w p"
    by (auto simp: session_inv_def rerun_inv_def)
  from assms have r: "rerun_inv prov w"
    by (simp add: session_inv_def)
  have pass: "script_pass tbl prov (ChatInput user_prompt) w
      = chat_input tbl prov p (ChatInput user_prompt) w"
    using True p cs
    by (simp add: script_pass_ChatInput chat_interface_def greeting_synthesis_def)
  show ?thesis
  proof (cases "user_prompt = []")
    case True
    have "script_pass tbl prov (ChatInput user_prompt) w = Continue w"
      unfolding pass by (simp add: True chat_input_def)
    with assms show ?thesis
      by (simp add: pass_ok_session)
  next
    case nonempty: False
    let ?u = "\<lparr>msg_role = ''user'', content = user_prompt\<rparr>"
    show ?thesis
    proof (cases "check_crisis_keywords tbl user_prompt")
      case flagged: True
      have "rerun_inv prov (w\<lparr>messages := messages w
          @ [?u, \<lparr>msg_role = ''assistant'', content = get_crisis_response\<rparr>]\<rparr>)"
        by (rule rerun_inv_frame [OF r, where ext = "[]"]) (use m in simp_all)
      then show ?thesis
        by (simp add: pass chat_input_flagged [OF flagged] pass_ok_rerun)
    next
      case normal: False
      let ?text = "context_prompt p user_prompt"
      show ?thesis
      proof (cases "prov (calls w @ [SendMessage cs ?text])")
        case (Inl e)
        let ?w' = "w\<lparr>messages := messages w
            @ [?u, \<lparr>msg_role = ''assistant'', content = apology e\<rparr>],
            calls := calls w @ [SendMessage cs ?text]\<rparr>"
        have "rerun_inv prov ?w'"
          by (rule rerun_inv_frame [OF r, where ext = "[SendMessage cs ?text]"])
            (use m in simp_all)
        moreover have "chat_input tbl prov p (ChatInput user_prompt) w = Rerun ?w'"
          using nonempty normal cs Inl
          by (simp add: chat_input_def generate_ai_response_def send_message_def)
        ultimately show ?thesis
          unfolding pass by (simp only: pass_ok_rerun)
      next
        case (Inr reply)
        let ?w' = "w\<lparr>messages := messages w
            @ [?u, \<lparr>msg_role = ''assistant'', content = reply\<rparr>],
            calls := calls w @ [SendMessage cs ?text],
            chat_session := Some (ChatSession (chat_model cs)
              (history cs @ [(''user'', [?text]), (''model'', [reply])]))\<rparr>"
        have "history_inv prov ?w' p"
          by (rule history_inv_answer [OF h cs Inr]) simp_all
        with p m have "rerun_inv prov ?w'"
          unfolding rerun_inv_def by simp
        moreover have "chat_input tbl prov p (ChatInput user_prompt) w = Rerun ?w'"
          using nonempty normal cs Inr
          by (simp add: chat_input_def generate_ai_response_def send_message_def)
        ultimately show ?thesis
          unfolding pass by (simp only: pass_ok_rerun)
      qed
    qed
  qed
qed

lemma script_pass_ok:
  "session_inv prov w \<Longrightarrow> pass_ok prov (script_pass tbl prov ev w)"
  by (cases ev)
    (simp_all add: pass_ok_Rerender pass_ok_ValidateStart pass_ok_PersonalityButton
      pass_ok_GetRecommendation pass_ok_ClearChat pass_ok_ChangeApiKey pass_ok_ChatInput)

lemma script_session_inv:
  assumes "session_inv prov w"
  shows "\<exists>f. script tbl prov ev w = Some f \<and> session_inv prov (world_of f)"
proof (cases "script_pass tbl prov ev w")
  case (Rerun w')
  with script_pass_ok [OF assms, of tbl ev] have "rerun_inv prov w'"
    by (simp add: pass_ok_def)
  then have "session_inv prov (world_of (script_pass tbl prov Rerender w'))"
    by (rule rerender_inv)
  then show ?thesis
    by (simp add: script_eq Rerun)
qed (use script_pass_ok [OF assms, of tbl ev] in \<open>simp_all add: script_eq pass_ok_def\<close>)

lemma initial_session_inv: "session_inv prov initial_state"
  by (simp add: session_inv_def rerun_inv_def history_inv_def initial_state_def sage_lookup)

lemma reachable_session_inv: "reachable tbl prov w \<Longrightarrow> session_inv prov w"
proof (induction rule: reachable.induct)
  case reachable_init
  show ?case by (rule initial_session_inv)
next
  case (reachable_step w ev f)
  from script_session_inv [OF reachable_step.IH, of tbl ev] reachable_step.hyps(2)
  show ?case by auto
qed

lemma unlock_run:
  assumes "\<not> api_key_valid w" "api_key \<noteq> []"
    and "prov (calls w @ [GenerateContent (GenerativeModel api_key ''gemini-pro'') ''Hello'']) = Inr t"
    and "PERSONALITIES (personality w) = Some p" "chat_session w = None"
  shows "script tbl prov (ValidateStart api_key) w =
     Some (Continue (w\<lparr>calls := calls w
           @ [GenerateContent (GenerativeModel api_key ''gemini-pro'') ''Hello''],
         api_key_valid := True, model := Some (GenerativeModel api_key ''gemini-pro''),
         chat_session := Some (ChatSession (GenerativeModel api_key ''gemini-pro'')
           (seeded_history p)),
         messages := messages w @ [\<lparr>msg_role = ''assistant'', content = greeting p\<rparr>]\<rparr>))"
proof -
  let ?m = "GenerativeModel api_key ''gemini-pro''"
  let ?w1 = "w\<lparr>calls := calls w @ [GenerateContent ?m ''Hello''],
    api_key_valid := True, model := Some ?m\<rparr>"
  have pass: "script_pass tbl prov (ValidateStart api_key) w = Rerun ?w1"
    using assms by (simp add: script_pass_ValidateStart setup_panel_def validate_api_key_eq)
  have "script_pass tbl prov Rerender ?w1
      = Continue (?w1\<lparr>chat_session := Some (ChatSession ?m (seeded_history p)),
          messages := messages ?w1 @ [\<lparr>msg_role = ''assistant'', content = greeting p\<rparr>]\<rparr>)"
    using assms
    by (simp add: script_pass_Rerender chat_interface_Rerender_fresh [where p = p and m = ?m])
  with pass show ?thesis
    by (simp add: script_eq)
qed

lemma unlock_example:
  "script example_table (\<lambda>log. Inr ''Hi'') (ValidateStart ''key'') initial_state =
     Some (Continue (initial_state\<lparr>api_key_valid := True,
        model := Some (GenerativeModel ''key'' ''gemini-pro''),
        chat_session := Some (ChatSession (GenerativeModel ''key'' ''gemini-pro'') (seeded_history sage_info)),
        messages := [\<lparr>msg_role = ''assistant'', content = greeting sage_info\<rparr>],
        calls := [GenerateContent (GenerativeModel ''key'' ''gemini-pro'') ''Hello'']\<rparr>))"
  using unlock_run [where prov = "(\<lambda>log. Inr ''Hi'')" and w = initial_state
      and api_key = "''key''" and t = "''Hi''" and p = sage_info and tbl = example_table]
  by (simp add: initial_state_def sage_lookup)

lemma die_flagged: "check_crisis_keywords example_table ''I want to die''"
  by code_simp

lemma flagged_text_not_seeded:
  "\<not> list_ex (list_ex (str_contains ''I want to die'') \<circ> snd) (seeded_history sage_info)"
  by code_simp

subsection \<open>The request of a turn\<close>

text \<open>
  C7, as the code has it. In every session state a user can bring about that is
  unlocked, the active persona is one of the dictionary and the session has its chat
  object, whose history is the two turns seeded for the persona followed by pairs of a
  text sent and the answer to it, each of them a \<^verbatim>\<open>send_message\<close> call of the call
  log that the provider answered. A message that is not flagged makes exactly one call,
  \<^verbatim>\<open>send_message\<close> on that chat object as it is then, so with that history; when the
  provider answers, the history gains the text sent and the answer, and when the call
  raises it is unchanged. A flagged message adds its two messages to the message log and
  leaves the chat object as it is. The text sent is the role framing
  \<open>As name, a role, respond to:\<close>, then the raw user text, then \<open>Remember:\<close> and the
  system prompt of the persona: the framing comes before the user text, the system
  prompt after it, at the end of the text.
\<close>

theorem request_layout:
  assumes "reachable tbl prov w" "api_key_valid w"
    and "\<not> check_crisis_keywords tbl user_prompt" "user_prompt \<noteq> []"
  shows "\<exists>p cs xs.
      PERSONALITIES (personality w) = Some p \<and> chat_session w = Some cs
    \<and> history cs = seeded_history p @ exchange_turns xs
    \<and> list_all (answered_in prov (calls w)) xs
    \<and> script tbl prov (ChatInput user_prompt) w = Some (Continue
        (case prov (calls w @ [SendMessage cs (context_prompt p user_prompt)]) of
           Inr reply \<Rightarrow>
             w\<lparr>messages := messages w
                 @ [\<lparr>msg_role = ''user'', content = user_prompt\<rparr>,
                    \<lparr>msg_role = ''assistant'', content = reply\<rparr>],
               calls := calls w @ [SendMessage cs (context_prompt p user_prompt)],
               chat_session := Some (ChatSession (chat_model cs)
                 (history cs @ [(''user'', [context_prompt p user_prompt]),
                                (''model'', [reply])]))\<rparr>
         | Inl e \<Rightarrow>
             w\<lparr>messages := messages w
                 @ [\<lparr>msg_role = ''user'', content = user_prompt\<rparr>,
                    \<lparr>msg_role = ''assistant'', content = apology e\<rparr>],
               calls := calls w @ [SendMessage cs (context_prompt p user_prompt)]\<rparr>))
    \<and> (check_crisis_keywords tbl flagged_prompt \<longrightarrow>
         script tbl prov (ChatInput flagged_prompt) w = Some (Continue
           (w\<lparr>messages := messages w
               @ [\<lparr>msg_role = ''user'', content = flagged_prompt\<rparr>,
                  \<lparr>msg_role = ''assistant'', content = get_crisis_response\<rparr>]\<rparr>)))
    \<and> occurs_before (''As '' @ name p @ '', a '' @ role p @ '', respond to: '') user_prompt
          (context_prompt p user_prompt)
    \<and> occurs_before user_prompt (''Remember: '' @ prompt p) (context_prompt p user_prompt)
    \<and> suffix (prompt p) (context_prompt p user_prompt)"
proof -
  from reachable_session_inv [OF assms(1)] assms(2)
  obtain p cs where p: "PERSONALITIES (personality w) = Some p"
    and cs: "chat_session w = Some cs" and h: "history_inv prov w p"
    by (auto simp: session_inv_def rerun_inv_def)
  from h cs obtain xs where xs: "history cs = seeded_history p @ exchange_turns xs"
    "list_all (answered_in prov (calls w)) xs"
    unfolding history_inv_def by blast
  let ?text = "context_prompt p user_prompt"
  have run: "script tbl prov (ChatInput user_prompt) w = Some (Continue
        (case prov (calls w @ [SendMessage cs ?text]) of
           Inr reply \<Rightarrow>
             w\<lparr>messages := messages w
                 @ [\<lparr>msg_role = ''user'', content = user_prompt\<rparr>,
                    \<lparr>msg_role = ''assistant'', content = reply\<rparr>],
               calls := calls w @ [SendMessage cs ?text],
               chat_session := Some (ChatSession (chat_model cs)
                 (history cs @ [(''user'', [?text]), (''model'', [reply])]))\<rparr>
         | Inl e \<Rightarrow>
             w\<lparr>messages := messages w
                 @ [\<lparr>msg_role = ''user'', content = user_prompt\<rparr>,
                    \<lparr>msg_role = ''assistant'', content = apology e\<rparr>],
               calls := calls w @ [SendMessage cs ?text]\<rparr>))"
  proof (cases "prov (calls w @ [SendMessage cs ?text])")
    case (Inl e)
    from chat_turn_raises [where prov = prov, OF assms(2) p cs assms(3,4) Inl] show ?thesis
      by (simp add: Inl)
  next
    case (Inr reply)
    from chat_turn_answered [where prov = prov, OF assms(2) p cs assms(3,4) Inr] show ?thesis
      by (simp add: Inr)
  qed
  have flagged: "check_crisis_keywords tbl flagged_prompt \<longrightarrow>
         script tbl prov (ChatInput flagged_prompt) w = Some (Continue
           (w\<lparr>messages := messages w
               @ [\<lparr>msg_role = ''user'', content = flagged_prompt\<rparr>,
                  \<lparr>msg_role = ''assistant'', content = get_crisis_response\<rparr>]\<rparr>))"
    using chat_turn_flagged [where prov = prov, OF assms(2) p cs] by blast
  have "?text
      = [] @ (''As '' @ name p @ '', a '' @ role p @ '', respond to: '') @ [] @ user_prompt
        @ (''\<newline>                    \<newline>                    Remember: '' @ prompt p)"
    by (simp add: context_prompt_def)
  then have framing: "occurs_before (''As '' @ name p @ '', a '' @ role p @ '', respond to: '')
      user_prompt ?text"
    unfolding occurs_before_iff by blast
  have "?text
      = (''As '' @ name p @ '', a '' @ role p @ '', respond to: '') @ user_prompt
        @ ''\<newline>                    \<newline>                    '' @ (''Remember: '' @ prompt p) @ []"
    by (simp add: context_prompt_def)
  then have remember: "occurs_before user_prompt (''Remember: '' @ prompt p) ?text"
    unfolding occurs_before_iff by blast
  have last: "suffix (prompt p) ?text"
    by (simp add: context_prompt_def suffix_def)
  from p cs xs run flagged framing remember last show ?thesis
    by (intro exI [of _ p] exI [of _ cs] exI [of _ xs] conjI)
qed

theorem request_layout_witness:
  "script example_table (\<lambda>log. Inr ''Hi'') (ChatInput ''How do I handle exam stress?'') (initial_state\<lparr>api_key_valid := True,
        model := Some (GenerativeModel ''key'' ''gemini-pro''),
        chat_session := Some (ChatSession (GenerativeModel ''key'' ''gemini-pro'') (seeded_history sage_info)),
        messages := [\<lparr>msg_role = ''assistant'', content = greeting sage_info\<rparr>],
        calls := [GenerateContent (GenerativeModel ''key'' ''gemini-pro'') ''Hello'']\<rparr>)
     = Some (Continue (initial_state\<lparr>api_key_valid := True,
        model := Some (GenerativeModel ''key'' ''gemini-pro''),
        chat_session := Some (ChatSession (GenerativeModel ''key'' ''gemini-pro'') (seeded_history sage_info
          @ [(''user'', [context_prompt sage_info ''How do I handle exam stress?'']), (''model'', [''Hi''])])),
        messages := [\<lparr>msg_role = ''assistant'', content = greeting sage_info\<rparr>,
          \<lparr>msg_role = ''user'', content = ''How do I handle exam stress?''\<rparr>,
          \<lparr>msg_role = ''assistant'', content = ''Hi''\<rparr>],
        calls := [GenerateContent (GenerativeModel ''key'' ''gemini-pro'') ''Hello'',
          SendMessage (ChatSession (GenerativeModel ''key'' ''gemini-pro'') (seeded_history sage_info)) (context_prompt sage_info ''How do I handle exam stress?'')]\<rparr>))
   \<and> script example_table (\<lambda>log. Inr ''Hi'') (ChatInput ''I want to die'') (initial_state\<lparr>api_key_valid := True,
        model := Some (GenerativeModel ''key'' ''gemini-pro''),
        chat_session := Some (ChatSession (GenerativeModel ''key'' ''gemini-pro'') (seeded_history sage_info)),
        messages := [\<lparr>msg_role = ''assistant'', content = greeting sage_info\<rparr>],
        calls := [GenerateContent (GenerativeModel ''key'' ''gemini-pro'') ''Hello'']\<rparr>)
     = Some (Continue (initial_state\<lparr>api_key_valid := True,
        model := Some (GenerativeModel ''key'' ''gemini-pro''),
        chat_session := Some (ChatSession (GenerativeModel ''key'' ''gemini-pro'') (seeded_history sage_info)),
        messages := [\<lparr>msg_role = ''assistant'', content = greeting sage_info\<rparr>,
          \<lparr>msg_role = ''user'', content = ''I want to die''\<rparr>,
          \<lparr>msg_role = ''assistant'', content = get_crisis_response\<rparr>],
        calls := [GenerateContent (GenerativeModel ''key'' ''gemini-pro'') ''Hello'']\<rparr>))
   \<and> occurs_before ''How do I handle exam stress?'' (''Remember: '' @ prompt sage_info) (context_prompt sage_info ''How do I handle exam stress?'')"
proof -
  have "reachable example_table (\<lambda>log. Inr ''Hi'') (world_of (Continue (initial_state\<lparr>api_key_valid := True,
        model := Some (GenerativeModel ''key'' ''gemini-pro''),
        chat_session := Some (ChatSession (GenerativeModel ''key'' ''gemini-pro'') (seeded_history sage_info)),
        messages := [\<lparr>msg_role = ''assistant'', content = greeting sage_info\<rparr>],
        calls := [GenerateContent (GenerativeModel ''key'' ''gemini-pro'') ''Hello'']\<rparr>)))"
    by (rule reachable_step [OF reachable_init unlock_example])
  then have reach: "reachable example_table (\<lambda>log. Inr ''Hi'') (initial_state\<lparr>api_key_valid := True,
        model := Some (GenerativeModel ''key'' ''gemini-pro''),
        chat_session := Some (ChatSession (GenerativeModel ''key'' ''gemini-pro'') (seeded_history sage_info)),
        messages := [\<lparr>msg_role = ''assistant'', content = greeting sage_info\<rparr>],
        calls := [GenerateContent (GenerativeModel ''key'' ''gemini-pro'') ''Hello'']\<rparr>)"
    by simp
  have unlocked: "api_key_valid (initial_state\<lparr>api_key_valid := True,
        model := Some (GenerativeModel ''key'' ''gemini-pro''),
        chat_session := Some (ChatSession (GenerativeModel ''key'' ''gemini-pro'') (seeded_history sage_info)),
        messages := [\<lparr>msg_role = ''assistant'', content = greeting sage_info\<rparr>],
        calls := [GenerateContent (GenerativeModel ''key'' ''gemini-pro'') ''Hello'']\<rparr>)"
    by simp
  have nonempty: "''How do I handle exam stress?'' \<noteq> []"
    by simp
  from request_layout [OF reach unlocked exam_question_not_flagged nonempty,
      where flagged_prompt = "''I want to die''"]
  obtain p cs where facts: "PERSONALITIES (personality (initial_state\<lparr>api_key_valid := True,
        model := Some (GenerativeModel ''key'' ''gemini-pro''),
        chat_session := Some (ChatSession (GenerativeModel ''key'' ''gemini-pro'') (seeded_history sage_info)),
        messages := [\<lparr>msg_role = ''assistant'', content = greeting sage_info\<rparr>],
        calls := [GenerateContent (GenerativeModel ''key'' ''gemini-pro'') ''Hello'']\<rparr>)) = Some p"
    "chat_session (initial_state\<lparr>api_key_valid := True,
        model := Some (GenerativeModel ''key'' ''gemini-pro''),
        chat_session := Some (ChatSession (GenerativeModel ''key'' ''gemini-pro'') (seeded_history sage_info)),
        messages := [\<lparr>msg_role = ''assistant'', content = greeting sage_info\<rparr>],
        calls := [GenerateContent (GenerativeModel ''key'' ''gemini-pro'') ''Hello'']\<rparr>) = Some cs"
    "script example_table (\<lambda>log. Inr ''Hi'') (ChatInput ''How do I handle exam stress?'') (initial_state\<lparr>api_key_valid := True,
        model := Some (GenerativeModel ''key'' ''gemini-pro''),
        chat_session := Some (ChatSession (GenerativeModel ''key'' ''gemini-pro'') (seeded_history sage_info)),
        messages := [\<lparr>msg_role = ''assistant'', content = greeting sage_info\<rparr>],
        calls := [GenerateContent (GenerativeModel ''key'' ''gemini-pro'') ''Hello'']\<rparr>) = Some (Continue
        (case (\<lambda>log. Inr ''Hi'') (calls (initial_state\<lparr>api_key_valid := True,
        model := Some (GenerativeModel ''key'' ''gemini-pro''),
        chat_session := Some (ChatSession (GenerativeModel ''key'' ''gemini-pro'') (seeded_history sage_info)),
        messages := [\<lparr>msg_role = ''assistant'', content = greeting sage_info\<rparr>],
        calls := [GenerateContent (GenerativeModel ''key'' ''gemini-pro'') ''Hello'']\<rparr>) @ [SendMessage cs (context_prompt p ''How do I handle exam stress?'')]) of
           Inr reply \<Rightarrow>
             (initial_state\<lparr>api_key_valid := True,
        model := Some (GenerativeModel ''key'' ''gemini-pro''),
        chat_session := Some (ChatSession (GenerativeModel ''key'' ''gemini-pro'') (seeded_history sage_info)),
        messages := [\<lparr>msg_role = ''assistant'', content = greeting sage_info\<rparr>],
        calls := [GenerateContent (GenerativeModel ''key'' ''gemini-pro'') ''Hello'']\<rparr>)\<lparr>messages := messages (initial_state\<lparr>api_key_valid := True,
        model := Some (GenerativeModel ''key'' ''gemini-pro''),
        chat_session := Some (ChatSession (GenerativeModel ''key'' ''gemini-pro'') (seeded_history sage_info)),
        messages := [\<lparr>msg_role = ''assistant'', content = greeting sage_info\<rparr>],
        calls := [GenerateContent (GenerativeModel ''key'' ''gemini-pro'') ''Hello'']\<rparr>)
                 @ [\<lparr>msg_role = ''user'', content = ''How do I handle exam stress?''\<rparr>,
                    \<lparr>msg_role = ''assistant'', content = reply\<rparr>],
               calls := calls (initial_state\<lparr>api_key_valid := True,
        model := Some (GenerativeModel ''key'' ''gemini-pro''),
        chat_session := Some (ChatSession (GenerativeModel ''key'' ''gemini-pro'') (seeded_history sage_info)),
        messages := [\<lparr>msg_role = ''assistant'', content = greeting sage_info\<rparr>],
        calls := [GenerateContent (GenerativeModel ''key'' ''gemini-pro'') ''Hello'']\<rparr>) @ [SendMessage cs (context_prompt p ''How do I handle exam stress?'')],
               chat_session := Some (ChatSession (chat_model cs)
                 (history cs @ [(''user'', [context_prompt p ''How do I handle exam stress?'']),
                                (''model'', [reply])]))\<rparr>
         | Inl e \<Rightarrow>
             (initial_state\<lparr>api_key_valid := True,
        model := Some (GenerativeModel ''key'' ''gemini-pro''),
        chat_session := Some (ChatSession (GenerativeModel ''key'' ''gemini-pro'') (seeded_history sage_info)),
        messages := [\<lparr>msg_role = ''assistant'', content = greeting sage_info\<rparr>],
        calls := [GenerateContent (GenerativeModel ''key'' ''gemini-pro'') ''Hello'']\<rparr>)\<lparr>messages := messages (initial_state\<lparr>api_key_valid := True,
        model := Some (GenerativeModel ''key'' ''gemini-pro''),
        chat_session := Some (ChatSession (GenerativeModel ''key'' ''gemini-pro'') (seeded_history sage_info)),
        messages := [\<lparr>msg_role = ''assistant'', content = greeting sage_info\<rparr>],
        calls := [GenerateContent (GenerativeModel ''key'' ''gemini-pro'') ''Hello'']\<rparr>)
                 @ [\<lparr>msg_role = ''user'', content = ''How do I handle exam stress?''\<rparr>,
                    \<lparr>msg_role = ''assistant'', content = apology e\<rparr>],
               calls := calls (initial_state\<lparr>api_key_valid := True,
        model := Some (GenerativeModel ''key'' ''gemini-pro''),
        chat_session := Some (ChatSession (GenerativeModel ''key'' ''gemini-pro'') (seeded_history sage_info)),
        messages := [\<lparr>msg_role = ''assistant'', content = greeting sage_info\<rparr>],
        calls := [GenerateContent (GenerativeModel ''key'' ''gemini-pro'') ''Hello'']\<rparr>) @ [SendMessage cs (context_prompt p ''How do I handle exam stress?'')]\<rparr>))"
    "check_crisis_keywords example_table ''I want to die'' \<longrightarrow>
         script example_table (\<lambda>log. Inr ''Hi'') (ChatInput ''I want to die'') (initial_state\<lparr>api_key_valid := True,
        model := Some (GenerativeModel ''key'' ''gemini-pro''),
        chat_session := Some (ChatSession (GenerativeModel ''key'' ''gemini-pro'') (seeded_history sage_info)),
        messages := [\<lparr>msg_role = ''assistant'', content = greeting sage_info\<rparr>],
        calls := [GenerateContent (GenerativeModel ''key'' ''gemini-pro'') ''Hello'']\<rparr>) = Some (Continue
           ((initial_state\<lparr>api_key_valid := True,
        model := Some (GenerativeModel ''key'' ''gemini-pro''),
        chat_session := Some (ChatSession (GenerativeModel ''key'' ''gemini-pro'') (seeded_history sage_info)),
        messages := [\<lparr>msg_role = ''assistant'', content = greeting sage_info\<rparr>],
        calls := [GenerateContent (GenerativeModel ''key'' ''gemini-pro'') ''Hello'']\<rparr>)\<lparr>messages := messages (initial_state\<lparr>api_key_valid := True,
        model := Some (GenerativeModel ''key'' ''gemini-pro''),
        chat_session := Some (ChatSession (GenerativeModel ''key'' ''gemini-pro'') (seeded_history sage_info)),
        messages := [\<lparr>msg_role = ''assistant'', content = greeting sage_info\<rparr>],
        calls := [GenerateContent (GenerativeModel ''key'' ''gemini-pro'') ''Hello'']\<rparr>)
               @ [\<lparr>msg_role = ''user'', content = ''I want to die''\<rparr>,
                  \<lparr>msg_role = ''assistant'', content = get_crisis_response\<rparr>]\<rparr>))"
    "occurs_before ''How do I handle exam stress?'' (''Remember: '' @ prompt p) (context_prompt p ''How do I handle exam stress?'')"
    by blast
  from facts(1) have p: "p = sage_info"
    by (simp add: initial_state_def sage_lookup)
  from facts(2) have cs: "cs = ChatSession (GenerativeModel ''key'' ''gemini-pro'') (seeded_history sage_info)"
    by simp
  from facts(3) have "script example_table (\<lambda>log. Inr ''Hi'') (ChatInput ''How do I handle exam stress?'') (initial_state\<lparr>api_key_valid := True,
        model := Some (GenerativeModel ''key'' ''gemini-pro''),
        chat_session := Some (ChatSession (GenerativeModel ''key'' ''gemini-pro'') (seeded_history sage_info)),
        messages := [\<lparr>msg_role = ''assistant'', content = greeting sage_info\<rparr>],
        calls := [GenerateContent (GenerativeModel ''key'' ''gemini-pro'') ''Hello'']\<rparr>)
     = Some (Continue (initial_state\<lparr>api_key_valid := True,
        model := Some (GenerativeModel ''key'' ''gemini-pro''),
        chat_session := Some (ChatSession (GenerativeModel ''key'' ''gemini-pro'') (seeded_history sage_info
          @ [(''user'', [context_prompt sage_info ''How do I handle exam stress?'']), (''model'', [''Hi''])])),
        messages := [\<lparr>msg_role = ''assistant'', content = greeting sage_info\<rparr>,
          \<lparr>msg_role = ''user'', content = ''How do I handle exam stress?''\<rparr>,
          \<lparr>msg_role = ''assistant'', content = ''Hi''\<rparr>],
        calls := [GenerateContent (GenerativeModel ''key'' ''gemini-pro'') ''Hello'',
          SendMessage (ChatSession (GenerativeModel ''key'' ''gemini-pro'') (seeded_history sage_info)) (context_prompt sage_info ''How do I handle exam stress?'')]\<rparr>))"
    unfolding p cs by (simp add: initial_state_def)
  moreover from facts(4) die_flagged
  have "script example_table (\<lambda>log. Inr ''Hi'') (ChatInput ''I want to die'') (initial_state\<lparr>api_key_valid := True,
        model := Some (GenerativeModel ''key'' ''gemini-pro''),
        chat_session := Some (ChatSession (GenerativeModel ''key'' ''gemini-pro'') (seeded_history sage_info)),
        messages := [\<lparr>msg_role = ''assistant'', content = greeting sage_info\<rparr>],
        calls := [GenerateContent (GenerativeModel ''key'' ''gemini-pro'') ''Hello'']\<rparr>)
     = Some (Continue (initial_state\<lparr>api_key_valid := True,
        model := Some (GenerativeModel ''key'' ''gemini-pro''),
        chat_session := Some (ChatSession (GenerativeModel ''key'' ''gemini-pro'') (seeded_history sage_info)),
        messages := [\<lparr>msg_role = ''assistant'', content = greeting sage_info\<rparr>,
          \<lparr>msg_role = ''user'', content = ''I want to die''\<rparr>,
          \<lparr>msg_role = ''assistant'', content = get_crisis_response\<rparr>],
        calls := [GenerateContent (GenerativeModel ''key'' ''gemini-pro'') ''Hello'']\<rparr>))"
    by (simp add: initial_state_def)
  moreover from facts(5) have "occurs_before ''How do I handle exam stress?'' (''Remember: '' @ prompt sage_info)
      (context_prompt sage_info ''How do I handle exam stress?'')"
    unfolding p .
  ultimately show ?thesis
    by (intro conjI)
qed

text \<open>
  C7, as the claim words it, fails in both of its parts. From the initial state, with a
  provider that answers every call with \<open>Hi\<close>: the key is validated; the user sends
  \<open>I want to die\<close>, which the filter flags; then the user sends
  \<open>How do I handle exam stress?\<close>, which it does not flag. The one call of the last
  turn is made on the chat object with the two seeded turns, none of which has the
  flagged message, while the message log before that turn holds the greeting, the
  flagged message and the crisis message: the prior turns of the session are not in the
  request. And the text sent has no occurrence of the system prompt followed by the user
  text.
\<close>

theorem system_prompt_after_user_text:
  "script example_table (\<lambda>log. Inr ''Hi'') (ValidateStart ''key'') initial_state
     = Some (Continue (initial_state\<lparr>api_key_valid := True,
        model := Some (GenerativeModel ''key'' ''gemini-pro''),
        chat_session := Some (ChatSession (GenerativeModel ''key'' ''gemini-pro'') (seeded_history sage_info)),
        messages := [\<lparr>msg_role = ''assistant'', content = greeting sage_info\<rparr>],
        calls := [GenerateContent (GenerativeModel ''key'' ''gemini-pro'') ''Hello'']\<rparr>))
   \<and> check_crisis_keywords example_table ''I want to die''
   \<and> script example_table (\<lambda>log. Inr ''Hi'') (ChatInput ''I want to die'') (initial_state\<lparr>api_key_valid := True,
        model := Some (GenerativeModel ''key'' ''gemini-pro''),
        chat_session := Some (ChatSession (GenerativeModel ''key'' ''gemini-pro'') (seeded_history sage_info)),
        messages := [\<lparr>msg_role = ''assistant'', content = greeting sage_info\<rparr>],
        calls := [GenerateContent (GenerativeModel ''key'' ''gemini-pro'') ''Hello'']\<rparr>)
     = Some (Continue (initial_state\<lparr>api_key_valid := True,
        model := Some (GenerativeModel ''key'' ''gemini-pro''),
        chat_session := Some (ChatSession (GenerativeModel ''key'' ''gemini-pro'') (seeded_history sage_info)),
        messages := [\<lparr>msg_role = ''assistant'', content = greeting sage_info\<rparr>,
          \<lparr>msg_role = ''user'', content = ''I want to die''\<rparr>,
          \<lparr>msg_role = ''assistant'', content = get_crisis_response\<rparr>],
        calls := [GenerateContent (GenerativeModel ''key'' ''gemini-pro'') ''Hello'']\<rparr>))
   \<and> \<not> check_crisis_keywords example_table ''How do I handle exam stress?''
   \<and> script example_table (\<lambda>log. Inr ''Hi'') (ChatInput ''How do I handle exam stress?'') (initial_state\<lparr>api_key_valid := True,
        model := Some (GenerativeModel ''key'' ''gemini-pro''),
        chat_session := Some (ChatSession (GenerativeModel ''key'' ''gemini-pro'') (seeded_history sage_info)),
        messages := [\<lparr>msg_role = ''assistant'', content = greeting sage_info\<rparr>,
          \<lparr>msg_role = ''user'', content = ''I want to die''\<rparr>,
          \<lparr>msg_role = ''assistant'', content = get_crisis_response\<rparr>],
        calls := [GenerateContent (GenerativeModel ''key'' ''gemini-pro'') ''Hello'']\<rparr>)
     = Some (Continue (initial_state\<lparr>api_key_valid := True,
        model := Some (GenerativeModel ''key'' ''gemini-pro''),
        chat_session := Some (ChatSession (GenerativeModel ''key'' ''gemini-pro'') (seeded_history sage_info
          @ [(''user'', [context_prompt sage_info ''How do I handle exam stress?'']), (''model'', [''Hi''])])),
        messages := [\<lparr>msg_role = ''assistant'', content = greeting sage_info\<rparr>,
          \<lparr>msg_role = ''user'', content = ''I want to die''\<rparr>,
          \<lparr>msg_role = ''assistant'', content = get_crisis_response\<rparr>,
          \<lparr>msg_role = ''user'', content = ''How do I handle exam stress?''\<rparr>,
          \<lparr>msg_role = ''assistant'', content = ''Hi''\<rparr>],
        calls := [GenerateContent (GenerativeModel ''key'' ''gemini-pro'') ''Hello'',
          SendMessage (ChatSession (GenerativeModel ''key'' ''gemini-pro'') (seeded_history sage_info)) (context_prompt sage_info ''How do I handle exam stress?'')]\<rparr>))
   \<and> \<not> occurs_before (prompt sage_info) ''How do I handle exam stress?'' (context_prompt sage_info ''How do I handle exam stress?'')
   \<and> seeded_history sage_info
     = [(''user'', [''Hello, I need help with family wellness and development.'']),
        (''model'', [prompt sage_info @ ''\<newline>\<newline>'' @ greeting sage_info])]
   \<and> \<not> list_ex (list_ex (str_contains ''I want to die'') \<circ> snd) (seeded_history sage_info)"
proof -
  have one: "script example_table (\<lambda>log. Inr ''Hi'') (ChatInput ''I want to die'') (initial_state\<lparr>api_key_valid := True,
        model := Some (GenerativeModel ''key'' ''gemini-pro''),
        chat_session := Some (ChatSession (GenerativeModel ''key'' ''gemini-pro'') (seeded_history sage_info)),
        messages := [\<lparr>msg_role = ''assistant'', content = greeting sage_info\<rparr>],
        calls := [GenerateContent (GenerativeModel ''key'' ''gemini-pro'') ''Hello'']\<rparr>)
     = Some (Continue (initial_state\<lparr>api_key_valid := True,
        model := Some (GenerativeModel ''key'' ''gemini-pro''),
        chat_session := Some (ChatSession (GenerativeModel ''key'' ''gemini-pro'') (seeded_history sage_info)),
        messages := [\<lparr>msg_role = ''assistant'', content = greeting sage_info\<rparr>,
          \<lparr>msg_role = ''user'', content = ''I want to die''\<rparr>,
          \<lparr>msg_role = ''assistant'', content = get_crisis_response\<rparr>],
        calls := [GenerateContent (GenerativeModel ''key'' ''gemini-pro'') ''Hello'']\<rparr>))"
    using chat_turn_flagged [where prov = "(\<lambda>log. Inr ''Hi'')" and tbl = example_table
        and w = "initial_state\<lparr>api_key_valid := True,
        model := Some (GenerativeModel ''key'' ''gemini-pro''),
        chat_session := Some (ChatSession (GenerativeModel ''key'' ''gemini-pro'') (seeded_history sage_info)),
        messages := [\<lparr>msg_role = ''assistant'', content = greeting sage_info\<rparr>],
        calls := [GenerateContent (GenerativeModel ''key'' ''gemini-pro'') ''Hello'']\<rparr>" and p = sage_info and cs = "ChatSession (GenerativeModel ''key'' ''gemini-pro'') (seeded_history sage_info)", OF _ _ _ die_flagged]
    by (simp add: initial_state_def sage_lookup)
  have two: "script example_table (\<lambda>log. Inr ''Hi'') (ChatInput ''How do I handle exam stress?'') (initial_state\<lparr>api_key_valid := True,
        model := Some (GenerativeModel ''key'' ''gemini-pro''),
        chat_session := Some (ChatSession (GenerativeModel ''key'' ''gemini-pro'') (seeded_history sage_info)),
        messages := [\<lparr>msg_role = ''assistant'', content = greeting sage_info\<rparr>,
          \<lparr>msg_role = ''user'', content = ''I want to die''\<rparr>,
          \<lparr>msg_role = ''assistant'', content = get_crisis_response\<rparr>],
        calls := [GenerateContent (GenerativeModel ''key'' ''gemini-pro'') ''Hello'']\<rparr>)
     = Some (Continue (initial_state\<lparr>api_key_valid := True,
        model := Some (GenerativeModel ''key'' ''gemini-pro''),
        chat_session := Some (ChatSession (GenerativeModel ''key'' ''gemini-pro'') (seeded_history sage_info
          @ [(''user'', [context_prompt sage_info ''How do I handle exam stress?'']), (''model'', [''Hi''])])),
        messages := [\<lparr>msg_role = ''assistant'', content = greeting sage_info\<rparr>,
          \<lparr>msg_role = ''user'', content = ''I want to die''\<rparr>,
          \<lparr>msg_role = ''assistant'', content = get_crisis_response\<rparr>,
          \<lparr>msg_role = ''user'', content = ''How do I handle exam stress?''\<rparr>,
          \<lparr>msg_role = ''assistant'', content = ''Hi''\<rparr>],
        calls := [GenerateContent (GenerativeModel ''key'' ''gemini-pro'') ''Hello'',
          SendMessage (ChatSession (GenerativeModel ''key'' ''gemini-pro'') (seeded_history sage_info)) (context_prompt sage_info ''How do I handle exam stress?'')]\<rparr>))"
    using chat_turn_answered [where prov = "(\<lambda>log. Inr ''Hi'')" and tbl = example_table
        and w = "initial_state\<lparr>api_key_valid := True,
        model := Some (GenerativeModel ''key'' ''gemini-pro''),
        chat_session := Some (ChatSession (GenerativeModel ''key'' ''gemini-pro'') (seeded_history sage_info)),
        messages := [\<lparr>msg_role = ''assistant'', content = greeting sage_info\<rparr>,
          \<lparr>msg_role = ''user'', content = ''I want to die''\<rparr>,
          \<lparr>msg_role = ''assistant'', content = get_crisis_response\<rparr>],
        calls := [GenerateContent (GenerativeModel ''key'' ''gemini-pro'') ''Hello'']\<rparr>" and p = sage_info and cs = "ChatSession (GenerativeModel ''key'' ''gemini-pro'') (seeded_history sage_info)" and reply = "''Hi''",
        OF _ _ _ exam_question_not_flagged]
    by (simp add: initial_state_def sage_lookup)
  have seed: "seeded_history sage_info
     = [(''user'', [''Hello, I need help with family wellness and development.'']),
        (''model'', [prompt sage_info @ ''\<newline>\<newline>'' @ greeting sage_info])]"
    by (simp add: seeded_history_def)
  from unlock_example die_flagged one exam_question_not_flagged two sage_prompt_not_before
    seed flagged_text_not_seeded
  show ?thesis
    by (intro conjI)
qed

end
